theory Spec2Isabelle
  imports Main "HOL-Library.Word"
begin

unbundle bit_operations_syntax

section \<open>Data model of source4/librpc/rpc/dcerpc_schannel.c\<close>

type_synonym u32 = "32 word"

text \<open>\<open>struct netr_Credential\<close> is eight bytes of data; \<open>struct samr_Password\<close> is a
  sixteen byte hash.\<close>

type_synonym netr_Credential = "64 word"
type_synonym samr_Password = "128 word"

text \<open>The status codes the file compares with \<open>NT_STATUS_EQUAL\<close> and \<open>NT_STATUS_IS_OK\<close>,
  and one constructor for every code it only passes on.\<close>

datatype NTSTATUS =
    NT_STATUS_OK
  | NT_STATUS_ACCESS_DENIED
  | NT_STATUS_DOWNGRADE_DETECTED
  | NT_STATUS_INTERNAL_ERROR
  | NT_STATUS_NO_MEMORY
  | NT_STATUS_NOT_IMPLEMENTED
  | NT_STATUS_RPC_PROCNUM_OUT_OF_RANGE
  | NT_STATUS_RPC_BAD_STUB_DATA
  | NT_STATUS_RPC_ENUM_VALUE_OUT_OF_RANGE
  | NT_STATUS_OTHER nat

datatype WERROR = WERR_OK | WERR_NOT_SUPPORTED | WERR_OTHER nat

datatype netr_SchannelType =
    SEC_CHAN_NULL | SEC_CHAN_LOCAL | SEC_CHAN_WKSTA | SEC_CHAN_DNS_DOMAIN
  | SEC_CHAN_DOMAIN | SEC_CHAN_LANMAN | SEC_CHAN_BDC | SEC_CHAN_RODC

datatype samba_weak_crypto =
    SAMBA_WEAK_CRYPTO_UNKNOWN | SAMBA_WEAK_CRYPTO_ALLOWED | SAMBA_WEAK_CRYPTO_DISALLOWED

text \<open>The \<open>NETLOGON_NEG_*\<close> masks are declared in the netlogon IDL and in
  libcli/auth/credentials.h, not in dcerpc_schannel.c. Every function below takes them as
  the parameter \<open>K\<close>.\<close>

record netlogon_neg =
  NETLOGON_NEG_AUTH2_FLAGS :: u32
  NETLOGON_NEG_AUTH2_ADS_FLAGS :: u32
  NETLOGON_NEG_AUTHENTICATED_RPC :: u32
  NETLOGON_NEG_ARCFOUR :: u32
  NETLOGON_NEG_STRONG_KEYS :: u32
  NETLOGON_NEG_PASSWORD_SET2 :: u32
  NETLOGON_NEG_SUPPORTS_AES :: u32
  NETLOGON_NEG_RODC_PASSTHROUGH :: u32

text \<open>The values these masks have in Samba (MS-NRPC 3.1.4.2); used where a concrete
  run of the model is evaluated.\<close>

definition netlogon_idl :: netlogon_neg where
  "netlogon_idl =
     \<lparr> NETLOGON_NEG_AUTH2_FLAGS = 0x000701ff,
       NETLOGON_NEG_AUTH2_ADS_FLAGS = 0x600fffff,
       NETLOGON_NEG_AUTHENTICATED_RPC = 0x40000000,
       NETLOGON_NEG_ARCFOUR = 0x00000004,
       NETLOGON_NEG_STRONG_KEYS = 0x00004000,
       NETLOGON_NEG_PASSWORD_SET2 = 0x00020000,
       NETLOGON_NEG_SUPPORTS_AES = 0x01000000,
       NETLOGON_NEG_RODC_PASSTHROUGH = 0x00200000 \<rparr>"

text \<open>The three bits of \<open>s->pipe->conn->flags\<close> that \<open>dcerpc_schannel_key_send\<close>
  tests, and the three settings it reads from the loadparm context.\<close>

record conn_flags =
  DCERPC_SCHANNEL_128 :: bool
  DCERPC_SCHANNEL_AES :: bool
  DCERPC_SCHANNEL_AUTO :: bool

record loadparm_context =
  lpcfg_reject_md5_servers :: bool
  lpcfg_require_strong_key :: bool
  lpcfg_weak_crypto :: samba_weak_crypto

text \<open>Modelled from the spec: \<open>struct netlogon_creds_CredentialState\<close> is declared in
  the schannel IDL, not in dcerpc_schannel.c; the fields are those of the spec's
  CredentialChainState (session key, negotiated flags, rolling credential, sequence
  counter), the flags under the name the code reads them by.\<close>

record netlogon_creds_CredentialState =
  negotiate_flags :: u32
  session_key :: "128 word"
  sequence_counter :: u32
  rolling_credential :: netr_Credential

record netr_Authenticator =
  cred :: netr_Credential
  timestamp :: u32

text \<open>The three functions of libcli/auth the file calls; their bodies are in
  libcli/auth/credentials.c, so they are the parameter \<open>L\<close>. \<open>netlogon_creds_client_init\<close>
  takes the two challenges, the machine password, the requested and the local flags and
  returns the new state with the first credential (\<open>None\<close> for \<open>NULL\<close>); the two
  others work on a state in place and return a status.\<close>

record netlogon_lib =
  netlogon_creds_client_init ::
    "netr_Credential \<Rightarrow> netr_Credential \<Rightarrow> samr_Password \<Rightarrow> u32 \<Rightarrow> u32
       \<Rightarrow> (netlogon_creds_CredentialState \<times> netr_Credential) option"
  netlogon_creds_client_authenticator ::
    "netlogon_creds_CredentialState
       \<Rightarrow> NTSTATUS \<times> netlogon_creds_CredentialState \<times> netr_Authenticator"
  netlogon_creds_client_verify ::
    "netlogon_creds_CredentialState \<Rightarrow> netr_Credential
       \<Rightarrow> NTSTATUS \<times> netlogon_creds_CredentialState"

record schannel_key_state =
  dcerpc_schannel_auto :: bool
  creds :: "netlogon_creds_CredentialState option"
  requested_negotiate_flags :: u32
  required_negotiate_flags :: u32
  local_negotiate_flags :: u32
  remote_negotiate_flags :: u32
  credentials1 :: netr_Credential
  credentials2 :: netr_Credential
  credentials3 :: netr_Credential

section \<open>dcerpc_schannel_key_send: the flags of a handshake\<close>

text \<open>The local variable \<open>reject_md5_servers\<close> as it stands after line 417.\<close>

definition key_send_reject_md5_servers :: "conn_flags \<Rightarrow> loadparm_context \<Rightarrow> bool" where
  "key_send_reject_md5_servers fl lp =
     (let r = False;
          r = (if DCERPC_SCHANNEL_AES fl then True else r);
          r = (if DCERPC_SCHANNEL_AUTO fl then lpcfg_reject_md5_servers lp else r);
          r = (if lpcfg_weak_crypto lp = SAMBA_WEAK_CRYPTO_DISALLOWED then True else r)
      in r)"

text \<open>The local variable \<open>require_strong_key\<close> as it stands after line 421.\<close>

definition key_send_require_strong_key :: "conn_flags \<Rightarrow> loadparm_context \<Rightarrow> bool" where
  "key_send_require_strong_key fl lp =
     (let q = False;
          q = (if DCERPC_SCHANNEL_128 fl then True else q);
          q = (if DCERPC_SCHANNEL_AUTO fl then lpcfg_require_strong_key lp else q);
          q = (if key_send_reject_md5_servers fl lp then True else q)
      in q)"

text \<open>\<open>s->local_negotiate_flags\<close> after line 413: the candidate bits of the channel
  class.\<close>

definition key_send_class_flags :: "netlogon_neg \<Rightarrow> conn_flags \<Rightarrow> u32" where
  "key_send_class_flags K fl =
     (let l = NETLOGON_NEG_AUTH2_FLAGS K;
          l = (if DCERPC_SCHANNEL_128 fl then NETLOGON_NEG_AUTH2_ADS_FLAGS K else l);
          l = (if DCERPC_SCHANNEL_AES fl then NETLOGON_NEG_AUTH2_ADS_FLAGS K else l);
          l = (if DCERPC_SCHANNEL_AUTO fl
               then NETLOGON_NEG_AUTH2_ADS_FLAGS K OR NETLOGON_NEG_SUPPORTS_AES K else l)
      in l)"

text \<open>\<open>s->required_negotiate_flags\<close> after line 431, before line 435 takes bits away.\<close>

definition key_send_required_policy ::
  "netlogon_neg \<Rightarrow> conn_flags \<Rightarrow> loadparm_context \<Rightarrow> u32" where
  "key_send_required_policy K fl lp =
     (let r = NETLOGON_NEG_AUTHENTICATED_RPC K;
          r = (if key_send_require_strong_key fl lp
               then r OR NETLOGON_NEG_ARCFOUR K OR NETLOGON_NEG_STRONG_KEYS K else r);
          r = (if key_send_reject_md5_servers fl lp
               then r OR NETLOGON_NEG_PASSWORD_SET2 K OR NETLOGON_NEG_SUPPORTS_AES K else r)
      in r)"

text \<open>Lines 435 to 438: a requirement that holds the AES bit loses the RC4 and the
  strong-keys bits.\<close>

definition key_send_required_final :: "netlogon_neg \<Rightarrow> u32 \<Rightarrow> u32" where
  "key_send_required_final K r =
     (if r AND NETLOGON_NEG_SUPPORTS_AES K \<noteq> 0
      then r AND NOT (NETLOGON_NEG_ARCFOUR K) AND NOT (NETLOGON_NEG_STRONG_KEYS K)
      else r)"

text \<open>The state \<open>dcerpc_schannel_key_send\<close> leaves behind (\<open>talloc_zero\<close>, then lines
  393 to 445), before the endpoint mapping is requested.\<close>

definition dcerpc_schannel_key_send ::
  "netlogon_neg \<Rightarrow> conn_flags \<Rightarrow> loadparm_context \<Rightarrow> netr_SchannelType \<Rightarrow> schannel_key_state"
  where
  "dcerpc_schannel_key_send K fl lp schannel_type =
     (let required = key_send_required_policy K fl lp;
          local = key_send_class_flags K fl OR required;
          required = key_send_required_final K required;
          local = (if schannel_type = SEC_CHAN_RODC
                   then local OR NETLOGON_NEG_RODC_PASSTHROUGH K else local)
      in \<lparr> dcerpc_schannel_auto = DCERPC_SCHANNEL_AUTO fl,
           creds = None,
           requested_negotiate_flags = local,
           required_negotiate_flags = required,
           local_negotiate_flags = local,
           remote_negotiate_flags = 0,
           credentials1 = 0,
           credentials2 = 0,
           credentials3 = 0 \<rparr>)"

section \<open>The key handshake: stages 2 to 6 of schannel_key\<close>

text \<open>What the peer and the surroundings hand to the callbacks. A reply holds the
  status the \<open>_recv\<close> function returns and the out-values of the call; the out-values
  are stored only when that status is \<open>NT_STATUS_OK\<close>.\<close>

record srv_challenge_reply =
  challenge_status :: NTSTATUS
  challenge_return_credentials :: netr_Credential

record srv_auth2_reply =
  auth2_status :: NTSTATUS
  auth2_result :: NTSTATUS
  auth2_negotiate_flags :: u32
  auth2_return_credentials :: netr_Credential

record getcaps_reply =
  caps_status :: NTSTATUS
  caps_result :: NTSTATUS
  caps_value :: u32
  caps_return_authenticator :: netr_Authenticator

text \<open>The places where the two composites allocate (\<open>composite_nomem\<close>), in the order
  of the source.\<close>

datatype alloc_site =
    Alloc_schannel_key
  | Alloc_epm_creds
  | Alloc_binding
  | Alloc_epm_map_binding
  | Alloc_secondary_connection
  | Alloc_bind_auth_none
  | Alloc_server_name
  | Alloc_ServerReqChallenge nat
  | Alloc_ServerAuthenticate2 nat
  | Alloc_bind_auth
  | Alloc_caps_server_name
  | Alloc_LogonGetCapabilities nat
  | Alloc_LogonControl

text \<open>Everything a handshake takes from outside: the replies of the peer by attempt and
  by query level, and on the client side the allocations that fail, the NT hash of the
  machine password (\<open>None\<close> for \<open>NULL\<close>) and the outputs of \<open>generate_random_buffer\<close> in
  the order they are drawn.\<close>

record peer =
  talloc_fails :: "alloc_site \<Rightarrow> bool"
  epm_map_status :: NTSTATUS
  secondary_connection_status :: NTSTATUS
  bind_auth_none_status :: NTSTATUS
  nt_hash :: "samr_Password option"
  random_buffer :: "nat \<Rightarrow> netr_Credential"
  challenge_reply :: "nat \<Rightarrow> srv_challenge_reply"
  auth2_reply :: "nat \<Rightarrow> srv_auth2_reply"
  bind_auth_status :: NTSTATUS
  capabilities_reply :: "nat \<Rightarrow> getcaps_reply"
  logon_control_status :: NTSTATUS
  logon_control_werr :: WERROR

text \<open>Stage 2: \<open>Inl\<close> is \<open>composite_error\<close>, \<open>Inr\<close> the request for the secondary
  connection.\<close>

definition continue_epm_map_binding :: "NTSTATUS \<Rightarrow> bool \<Rightarrow> NTSTATUS + unit" where
  "continue_epm_map_binding status nomem =
     (if status \<noteq> NT_STATUS_OK then Inl status
      else if nomem then Inl NT_STATUS_NO_MEMORY
      else Inr ())"

text \<open>Stage 3: \<open>Inr\<close> is the non-authenticated bind request.\<close>

definition continue_secondary_connection :: "NTSTATUS \<Rightarrow> bool \<Rightarrow> NTSTATUS + unit" where
  "continue_secondary_connection status nomem =
     (if status \<noteq> NT_STATUS_OK then Inl status
      else if nomem then Inl NT_STATUS_NO_MEMORY
      else Inr ())"

text \<open>Stage 4: the first client challenge is drawn (\<open>rnd\<close> is what
  \<open>generate_random_buffer\<close> writes) and sent; \<open>Inr c\<close> is the ServerReqChallenge request
  with the client challenge \<open>c\<close>.\<close>

definition continue_bind_auth_none ::
  "schannel_key_state \<Rightarrow> NTSTATUS \<Rightarrow> bool \<Rightarrow> netr_Credential \<Rightarrow> bool
     \<Rightarrow> schannel_key_state \<times> (NTSTATUS + netr_Credential)" where
  "continue_bind_auth_none s status name_nomem rnd nomem =
     (if status \<noteq> NT_STATUS_OK then (s, Inl status)
      else if name_nomem then (s, Inl NT_STATUS_NO_MEMORY)
      else
        let s = s\<lparr>credentials1 := rnd\<rparr> in
        if nomem then (s, Inl NT_STATUS_NO_MEMORY)
        else (s, Inr (credentials1 s)))"

text \<open>Stage 5: \<open>Inr (f, c)\<close> is the ServerAuthenticate2 request with the negotiate
  flags \<open>f\<close> and the credential \<open>c\<close>.\<close>

definition continue_srv_challenge ::
  "netlogon_lib \<Rightarrow> schannel_key_state \<Rightarrow> srv_challenge_reply \<Rightarrow> samr_Password option \<Rightarrow> bool
     \<Rightarrow> schannel_key_state \<times> (NTSTATUS + u32 \<times> netr_Credential)" where
  "continue_srv_challenge L s rep mach_pwd nomem =
     (if challenge_status rep \<noteq> NT_STATUS_OK then (s, Inl (challenge_status rep))
      else
        let s = s\<lparr>credentials2 := challenge_return_credentials rep\<rparr> in
        case mach_pwd of
          None \<Rightarrow> (s, Inl NT_STATUS_INTERNAL_ERROR)
        | Some pwd \<Rightarrow>
            (case netlogon_creds_client_init L (credentials1 s) (credentials2 s) pwd
                    (requested_negotiate_flags s) (local_negotiate_flags s) of
               None \<Rightarrow> (s, Inl NT_STATUS_NO_MEMORY)
             | Some (cs, c3) \<Rightarrow>
                 let s = s\<lparr>creds := Some cs, credentials3 := c3\<rparr> in
                 if nomem then (s, Inl NT_STATUS_NO_MEMORY)
                 else (s, Inr (requested_negotiate_flags s, credentials3 s))))"

text \<open>Lines 247 to 257: the local \<open>rqf\<close>, the requirement the comparison uses.\<close>

definition srv_auth2_rqf :: "netlogon_neg \<Rightarrow> u32 \<Rightarrow> u32 \<Rightarrow> u32 \<Rightarrow> u32" where
  "srv_auth2_rqf K rqf rf lf =
     (if rf AND NETLOGON_NEG_SUPPORTS_AES K \<noteq> 0 \<and> lf AND NETLOGON_NEG_SUPPORTS_AES K \<noteq> 0
      then rqf AND NOT (NETLOGON_NEG_ARCFOUR K) AND NOT (NETLOGON_NEG_STRONG_KEYS K)
      else rqf)"

text \<open>Line 259: the comparison that ends the handshake with
  \<open>NT_STATUS_DOWNGRADE_DETECTED\<close>.\<close>

definition srv_auth2_downgrade :: "netlogon_neg \<Rightarrow> u32 \<Rightarrow> u32 \<Rightarrow> u32 \<Rightarrow> bool" where
  "srv_auth2_downgrade K rqf rf lf =
     (srv_auth2_rqf K rqf rf lf AND rf \<noteq> srv_auth2_rqf K rqf rf lf)"

datatype srv_auth2_next =
    Retry_ServerReqChallenge netr_Credential
  | Schannel_Key_Done
  | Schannel_Key_Error NTSTATUS

text \<open>Lines 274 to 335, the branch for \<open>NT_STATUS_ACCESS_DENIED\<close>.\<close>

definition srv_auth2_access_denied ::
  "netlogon_neg \<Rightarrow> schannel_key_state \<Rightarrow> NTSTATUS \<Rightarrow> netr_Credential \<Rightarrow> bool
     \<Rightarrow> schannel_key_state \<times> srv_auth2_next" where
  "srv_auth2_access_denied K s result rnd nomem =
     (let lf = local_negotiate_flags s;
          rf = remote_negotiate_flags s;
          s = (if lf AND rf = lf then s\<lparr>dcerpc_schannel_auto := False\<rparr> else s)
      in
        if \<not> dcerpc_schannel_auto s then (s, Schannel_Key_Error result)
        else
          let s = s\<lparr>dcerpc_schannel_auto := False\<rparr> in
          if (if lf AND NETLOGON_NEG_SUPPORTS_AES K \<noteq> 0
              then rf AND NETLOGON_NEG_SUPPORTS_AES K \<noteq> 0
              else if lf AND NETLOGON_NEG_STRONG_KEYS K \<noteq> 0
              then rf AND NETLOGON_NEG_STRONG_KEYS K \<noteq> 0
              else False)
          then (s, Schannel_Key_Error result)
          else
            let s = s\<lparr>local_negotiate_flags :=
                        local_negotiate_flags s AND remote_negotiate_flags s\<rparr>;
                s = s\<lparr>credentials1 := rnd\<rparr>
            in
              if nomem then (s, Schannel_Key_Error NT_STATUS_NO_MEMORY)
              else (s, Retry_ServerReqChallenge (credentials1 s)))"

text \<open>Lines 337 to 364, after a result of \<open>NT_STATUS_OK\<close>. The state \<open>s->creds\<close> is a
  pointer that stage 5 has set; the branch for \<open>None\<close> stands for the dereference of
  \<open>NULL\<close> and is never taken after stage 5.\<close>

definition srv_auth2_verify ::
  "netlogon_lib \<Rightarrow> schannel_key_state \<Rightarrow> schannel_key_state \<times> srv_auth2_next" where
  "srv_auth2_verify L s =
     (case creds s of
        None \<Rightarrow> (s, Schannel_Key_Error NT_STATUS_INTERNAL_ERROR)
      | Some cs \<Rightarrow>
          (case netlogon_creds_client_verify L cs (credentials3 s) of
             (status, cs) \<Rightarrow>
               let s = s\<lparr>creds := Some cs\<rparr> in
               if status \<noteq> NT_STATUS_OK then (s, Schannel_Key_Error status)
               else if requested_negotiate_flags s = local_negotiate_flags s
               then (s\<lparr>creds := Some (cs\<lparr>negotiate_flags :=
                                   negotiate_flags cs AND remote_negotiate_flags s\<rparr>)\<rparr>,
                     Schannel_Key_Done)
               else if local_negotiate_flags s \<noteq> remote_negotiate_flags s
               then (s, Schannel_Key_Error NT_STATUS_DOWNGRADE_DETECTED)
               else (s, Schannel_Key_Done)))"

text \<open>Stage 6.\<close>

definition continue_srv_auth2 ::
  "netlogon_neg \<Rightarrow> netlogon_lib \<Rightarrow> schannel_key_state \<Rightarrow> srv_auth2_reply \<Rightarrow> netr_Credential
     \<Rightarrow> bool \<Rightarrow> schannel_key_state \<times> srv_auth2_next" where
  "continue_srv_auth2 K L s rep rnd nomem =
     (if auth2_status rep \<noteq> NT_STATUS_OK then (s, Schannel_Key_Error (auth2_status rep))
      else
        let s = s\<lparr>remote_negotiate_flags := auth2_negotiate_flags rep,
                  credentials3 := auth2_return_credentials rep\<rparr>
        in
          if auth2_result rep \<noteq> NT_STATUS_ACCESS_DENIED \<and> auth2_result rep \<noteq> NT_STATUS_OK
          then (s, Schannel_Key_Error (auth2_result rep))
          else if srv_auth2_downgrade K (required_negotiate_flags s)
                    (remote_negotiate_flags s) (local_negotiate_flags s)
          then (s, Schannel_Key_Error NT_STATUS_DOWNGRADE_DETECTED)
          else if auth2_result rep = NT_STATUS_ACCESS_DENIED
          then srv_auth2_access_denied K s (auth2_result rep) rnd nomem
          else srv_auth2_verify L s)"

text \<open>One attempt: the reply to ServerReqChallenge number \<open>n\<close> goes to stage 5 and the
  reply to its ServerAuthenticate2 to stage 6. \<open>Inl\<close> is the end of the handshake with its
  status, \<open>Inr c\<close> a retry whose ServerReqChallenge carries \<open>c\<close>.\<close>

definition schannel_key_attempt ::
  "netlogon_neg \<Rightarrow> netlogon_lib \<Rightarrow> peer \<Rightarrow> nat \<Rightarrow> schannel_key_state
     \<Rightarrow> schannel_key_state \<times> (NTSTATUS + netr_Credential)" where
  "schannel_key_attempt K L P n s =
     (case continue_srv_challenge L s (challenge_reply P n) (nt_hash P)
             (talloc_fails P (Alloc_ServerAuthenticate2 n)) of
        (s, Inl e) \<Rightarrow> (s, Inl e)
      | (s, Inr _) \<Rightarrow>
          (case continue_srv_auth2 K L s (auth2_reply P n) (random_buffer P (Suc n))
                  (talloc_fails P (Alloc_ServerReqChallenge (Suc n))) of
             (s, Schannel_Key_Error e) \<Rightarrow> (s, Inl e)
           | (s, Schannel_Key_Done) \<Rightarrow> (s, Inl NT_STATUS_OK)
           | (s, Retry_ServerReqChallenge c) \<Rightarrow> (s, Inr c)))"

text \<open>A retry is only left through \<open>dcerpc_schannel_auto\<close>, which it clears: the
  recursion of the attempts below ends.\<close>

lemma continue_srv_challenge_auto:
  "continue_srv_challenge L s rep pw nm = (s', x) \<Longrightarrow>
     dcerpc_schannel_auto s' = dcerpc_schannel_auto s"
  by (auto simp: continue_srv_challenge_def Let_def
           split: if_splits option.splits prod.splits)

lemma srv_auth2_access_denied_retry:
  "srv_auth2_access_denied K s r rnd nm = (s', Retry_ServerReqChallenge c) \<Longrightarrow>
     dcerpc_schannel_auto s \<and> \<not> dcerpc_schannel_auto s'
     \<and> local_negotiate_flags s AND remote_negotiate_flags s \<noteq> local_negotiate_flags s"
  by (auto simp: srv_auth2_access_denied_def Let_def split: if_splits)

lemma srv_auth2_verify_no_retry:
  "srv_auth2_verify L s \<noteq> (s', Retry_ServerReqChallenge c)"
  by (auto simp: srv_auth2_verify_def Let_def split: if_splits option.splits prod.splits)

lemma continue_srv_auth2_retry:
  "continue_srv_auth2 K L s rep rnd nm = (s', Retry_ServerReqChallenge c) \<Longrightarrow>
     dcerpc_schannel_auto s \<and> \<not> dcerpc_schannel_auto s'
     \<and> auth2_result rep = NT_STATUS_ACCESS_DENIED"
  by (auto simp: continue_srv_auth2_def Let_def srv_auth2_verify_no_retry
           split: if_splits dest!: srv_auth2_access_denied_retry)

lemma schannel_key_attempt_retry:
  "schannel_key_attempt K L P n s = (s', Inr c) \<Longrightarrow>
     dcerpc_schannel_auto s \<and> \<not> dcerpc_schannel_auto s'"
  by (auto simp: schannel_key_attempt_def
           split: prod.splits sum.splits srv_auth2_next.splits
           dest!: continue_srv_auth2_retry continue_srv_challenge_auto)

text \<open>The attempts of one handshake, from the moment ServerReqChallenge number \<open>n\<close> is
  on the wire; \<open>sent\<close> lists the client challenges sent so far. The result is the last
  state, the status the composite ends with and the client challenges sent.\<close>

function schannel_key_attempts ::
  "netlogon_neg \<Rightarrow> netlogon_lib \<Rightarrow> peer \<Rightarrow> nat \<Rightarrow> schannel_key_state \<Rightarrow> netr_Credential list
     \<Rightarrow> schannel_key_state \<times> NTSTATUS \<times> netr_Credential list" where
  "schannel_key_attempts K L P n s sent =
     (case schannel_key_attempt K L P n s of
        (s', Inl e) \<Rightarrow> (s', e, sent)
      | (s', Inr c) \<Rightarrow> schannel_key_attempts K L P (Suc n) s' (sent @ [c]))"
  by pat_completeness auto
termination
  apply (relation "measure (\<lambda>(K, L, P, n, s, sent). if dcerpc_schannel_auto s then 1 else 0)")
   apply simp
  apply (auto dest!: schannel_key_attempt_retry sym[of "(_, _)"])
  done

declare schannel_key_attempts.simps [simp del]

text \<open>The whole key handshake: \<open>dcerpc_schannel_key_send\<close>, stages 2 to 4, then the
  attempts.\<close>

definition dcerpc_schannel_key ::
  "netlogon_neg \<Rightarrow> netlogon_lib \<Rightarrow> conn_flags \<Rightarrow> loadparm_context \<Rightarrow> netr_SchannelType \<Rightarrow> peer
     \<Rightarrow> schannel_key_state \<times> NTSTATUS \<times> netr_Credential list" where
  "dcerpc_schannel_key K L fl lp schannel_type P =
     (let s = dcerpc_schannel_key_send K fl lp schannel_type in
      if talloc_fails P Alloc_epm_creds \<or> talloc_fails P Alloc_binding
         \<or> talloc_fails P Alloc_epm_map_binding
      then (s, NT_STATUS_NO_MEMORY, [])
      else
        case continue_epm_map_binding (epm_map_status P)
               (talloc_fails P Alloc_secondary_connection) of
          Inl e \<Rightarrow> (s, e, [])
        | Inr _ \<Rightarrow>
            (case continue_secondary_connection (secondary_connection_status P)
                    (talloc_fails P Alloc_bind_auth_none) of
               Inl e \<Rightarrow> (s, e, [])
             | Inr _ \<Rightarrow>
                 (case continue_bind_auth_none s (bind_auth_none_status P)
                         (talloc_fails P Alloc_server_name) (random_buffer P 0)
                         (talloc_fails P (Alloc_ServerReqChallenge 0)) of
                    (s, Inl e) \<Rightarrow> (s, e, [])
                  | (s, Inr c) \<Rightarrow> schannel_key_attempts K L P 0 s [c])))"

section \<open>The authenticated bind and the capability checks: auth_schannel\<close>

record auth_schannel_state =
  auth_requested_negotiate_flags :: u32
  table_is_netlogon :: bool
  creds_state :: netlogon_creds_CredentialState
  cli_netlogon_creds :: "netlogon_creds_CredentialState option"
  save_creds_state :: netlogon_creds_CredentialState
  auth :: netr_Authenticator
  return_auth :: netr_Authenticator
  capabilities :: u32
  client_caps :: u32
  query_level :: nat

datatype auth_next =
    Send_LogonGetCapabilities nat netr_Authenticator
  | Send_LogonControl
  | Auth_Done
  | Auth_Error NTSTATUS

text \<open>\<open>ZERO_STRUCT\<close> and the value \<open>talloc_zero\<close> leaves in a structure.\<close>

definition zero_Authenticator :: netr_Authenticator where
  "zero_Authenticator = \<lparr> cred = 0, timestamp = 0 \<rparr>"

definition zero_CredentialState :: netlogon_creds_CredentialState where
  "zero_CredentialState =
     \<lparr> negotiate_flags = 0, session_key = 0, sequence_counter = 0, rolling_credential = 0 \<rparr>"

text \<open>Stage 2 of auth_schannel: \<open>dcerpc_schannel_key_recv\<close> hands over the status of
  the key handshake and, when that is \<open>NT_STATUS_OK\<close>, its \<open>creds\<close> and requested flags.
  \<open>Inr s\<close> is the state with the authenticated bind requested. A key handshake that
  ends with \<open>NT_STATUS_OK\<close> has set \<open>creds\<close>; the branch for \<open>None\<close> is never taken.\<close>

definition continue_schannel_key ::
  "bool \<Rightarrow> NTSTATUS \<Rightarrow> netlogon_creds_CredentialState option \<Rightarrow> u32 \<Rightarrow> bool
     \<Rightarrow> NTSTATUS + auth_schannel_state" where
  "continue_schannel_key is_netlogon status key_creds requested nomem =
     (if status \<noteq> NT_STATUS_OK then Inl status
      else
        case key_creds of
          None \<Rightarrow> Inl NT_STATUS_INTERNAL_ERROR
        | Some cs \<Rightarrow>
            if nomem then Inl NT_STATUS_NO_MEMORY
            else Inr \<lparr> auth_requested_negotiate_flags = requested,
                       table_is_netlogon = is_netlogon,
                       creds_state = cs,
                       cli_netlogon_creds = Some cs,
                       save_creds_state = zero_CredentialState,
                       auth = zero_Authenticator,
                       return_auth = zero_Authenticator,
                       capabilities = 0,
                       client_caps = 0,
                       query_level = 0 \<rparr>)"

text \<open>Lines 567 to 575 and 697 to 705: the authenticator of the next query is computed
  on \<open>save_creds_state\<close>, a copy of the state.\<close>

definition prepare_authenticator ::
  "netlogon_lib \<Rightarrow> auth_schannel_state \<Rightarrow> NTSTATUS \<times> auth_schannel_state" where
  "prepare_authenticator L s =
     (let s = s\<lparr>return_auth := zero_Authenticator\<rparr>;
          s = s\<lparr>save_creds_state := creds_state s\<rparr>
      in case netlogon_creds_client_authenticator L (save_creds_state s) of
           (status, sv, a) \<Rightarrow> (status, s\<lparr>save_creds_state := sv, auth := a\<rparr>))"

text \<open>Stage 3 of auth_schannel.\<close>

definition continue_bind_auth ::
  "netlogon_lib \<Rightarrow> auth_schannel_state \<Rightarrow> NTSTATUS \<Rightarrow> bool \<Rightarrow> bool
     \<Rightarrow> auth_schannel_state \<times> auth_next" where
  "continue_bind_auth L s status name_nomem nomem =
     (if status \<noteq> NT_STATUS_OK then (s, Auth_Error status)
      else if table_is_netlogon s then
        (case prepare_authenticator L s of
           (status, s) \<Rightarrow>
             if status \<noteq> NT_STATUS_OK then (s, Auth_Error status)
             else if name_nomem then (s, Auth_Error NT_STATUS_NO_MEMORY)
             else
               let s = s\<lparr>query_level := 1\<rparr> in
               if nomem then (s, Auth_Error NT_STATUS_NO_MEMORY)
               else (s, Send_LogonGetCapabilities (query_level s) (auth s)))
      else (s, Auth_Done))"

definition continue_logon_control_do ::
  "auth_schannel_state \<Rightarrow> bool \<Rightarrow> auth_schannel_state \<times> auth_next" where
  "continue_logon_control_do s nomem =
     (if nomem then (s, Auth_Error NT_STATUS_NO_MEMORY) else (s, Send_LogonControl))"

definition continue_logon_control_done ::
  "auth_schannel_state \<Rightarrow> NTSTATUS \<Rightarrow> WERROR \<Rightarrow> auth_schannel_state \<times> auth_next" where
  "continue_logon_control_done s status werr =
     (if status \<noteq> NT_STATUS_OK then (s, Auth_Error NT_STATUS_DOWNGRADE_DETECTED)
      else if werr \<noteq> WERR_NOT_SUPPORTED then (s, Auth_Error NT_STATUS_DOWNGRADE_DETECTED)
      else (s, Auth_Done))"

text \<open>Stage 4 of auth_schannel: the reply to the query of level 1.\<close>

definition continue_get_negotiated_capabilities ::
  "netlogon_neg \<Rightarrow> netlogon_lib \<Rightarrow> auth_schannel_state \<Rightarrow> getcaps_reply \<Rightarrow> bool \<Rightarrow> bool
     \<Rightarrow> auth_schannel_state \<times> auth_next" where
  "continue_get_negotiated_capabilities K L s rep control_nomem nomem =
     (if caps_status rep = NT_STATUS_RPC_PROCNUM_OUT_OF_RANGE then
        (if negotiate_flags (creds_state s) AND NETLOGON_NEG_SUPPORTS_AES K \<noteq> 0
         then (s, Auth_Error NT_STATUS_DOWNGRADE_DETECTED)
         else if negotiate_flags (creds_state s) AND NETLOGON_NEG_STRONG_KEYS K \<noteq> 0
         then (s, Auth_Error NT_STATUS_DOWNGRADE_DETECTED)
         else continue_logon_control_do s control_nomem)
      else if caps_status rep \<noteq> NT_STATUS_OK then (s, Auth_Error (caps_status rep))
      else
        let s = s\<lparr>capabilities := caps_value rep,
                  return_auth := caps_return_authenticator rep\<rparr>
        in
          if caps_result rep = NT_STATUS_NOT_IMPLEMENTED then
            (if negotiate_flags (creds_state s) AND NETLOGON_NEG_SUPPORTS_AES K \<noteq> 0
             then (s, Auth_Error NT_STATUS_DOWNGRADE_DETECTED)
             else (s, Auth_Done))
          else
            (case netlogon_creds_client_verify L (save_creds_state s) (cred (return_auth s)) of
               (status, sv) \<Rightarrow>
                 let s = s\<lparr>save_creds_state := sv\<rparr> in
                 if status \<noteq> NT_STATUS_OK then (s, Auth_Error status)
                 else
                   let s = s\<lparr>creds_state := save_creds_state s\<rparr>;
                       s = s\<lparr>cli_netlogon_creds := Some (creds_state s)\<rparr>
                   in
                     if caps_result rep \<noteq> NT_STATUS_OK then (s, Auth_Error (caps_result rep))
                     else if negotiate_flags (creds_state s) \<noteq> capabilities s
                     then (s, Auth_Error NT_STATUS_DOWNGRADE_DETECTED)
                     else if auth_requested_negotiate_flags s AND NETLOGON_NEG_SUPPORTS_AES K \<noteq> 0
                             \<and> negotiate_flags (creds_state s) AND NETLOGON_NEG_SUPPORTS_AES K = 0
                     then (s, Auth_Error NT_STATUS_DOWNGRADE_DETECTED)
                     else
                       (case prepare_authenticator L s of
                          (status, s) \<Rightarrow>
                            if status \<noteq> NT_STATUS_OK then (s, Auth_Error status)
                            else
                              let s = s\<lparr>query_level := 2\<rparr> in
                              if nomem then (s, Auth_Error NT_STATUS_NO_MEMORY)
                              else (s, Send_LogonGetCapabilities (query_level s) (auth s)))))"

text \<open>The reply to the query of level 2.\<close>

definition continue_get_client_capabilities ::
  "netlogon_lib \<Rightarrow> auth_schannel_state \<Rightarrow> getcaps_reply \<Rightarrow> bool
     \<Rightarrow> auth_schannel_state \<times> auth_next" where
  "continue_get_client_capabilities L s rep nomem =
     (let status = caps_status rep;
          status = (if status = NT_STATUS_RPC_BAD_STUB_DATA
                    then NT_STATUS_RPC_ENUM_VALUE_OUT_OF_RANGE else status)
      in
        if status = NT_STATUS_RPC_ENUM_VALUE_OUT_OF_RANGE
        then continue_logon_control_do s nomem
        else if status \<noteq> NT_STATUS_OK then (s, Auth_Error status)
        else
          let s = s\<lparr>client_caps := caps_value rep,
                    return_auth := caps_return_authenticator rep\<rparr>
          in
            case netlogon_creds_client_verify L (save_creds_state s) (cred (return_auth s)) of
              (status, sv) \<Rightarrow>
                let s = s\<lparr>save_creds_state := sv\<rparr> in
                if status \<noteq> NT_STATUS_OK then (s, Auth_Error status)
                else if caps_result rep \<noteq> NT_STATUS_OK then (s, Auth_Error (caps_result rep))
                else if auth_requested_negotiate_flags s \<noteq> client_caps s
                then (s, Auth_Error NT_STATUS_DOWNGRADE_DETECTED)
                else
                  let s = s\<lparr>creds_state := save_creds_state s\<rparr>;
                      s = s\<lparr>cli_netlogon_creds := Some (creds_state s)\<rparr>
                  in (s, Auth_Done))"

text \<open>The replies reach the callback of the request that is pending; a stage with no
  pending request of its kind passes the state on.\<close>

definition caps1_stage ::
  "netlogon_neg \<Rightarrow> netlogon_lib \<Rightarrow> peer \<Rightarrow> auth_schannel_state \<times> auth_next
     \<Rightarrow> auth_schannel_state \<times> auth_next" where
  "caps1_stage K L P x =
     (case x of
        (s, Send_LogonGetCapabilities lvl a) \<Rightarrow>
          if lvl = 1
          then continue_get_negotiated_capabilities K L s (capabilities_reply P 1)
                 (talloc_fails P Alloc_LogonControl)
                 (talloc_fails P (Alloc_LogonGetCapabilities 2))
          else x
      | _ \<Rightarrow> x)"

definition caps2_stage ::
  "netlogon_lib \<Rightarrow> peer \<Rightarrow> auth_schannel_state \<times> auth_next
     \<Rightarrow> auth_schannel_state \<times> auth_next" where
  "caps2_stage L P x =
     (case x of
        (s, Send_LogonGetCapabilities lvl a) \<Rightarrow>
          if lvl = 2
          then continue_get_client_capabilities L s (capabilities_reply P 2)
                 (talloc_fails P Alloc_LogonControl)
          else x
      | _ \<Rightarrow> x)"

definition logon_control_stage ::
  "peer \<Rightarrow> auth_schannel_state \<times> auth_next \<Rightarrow> auth_schannel_state \<times> auth_next" where
  "logon_control_stage P x =
     (case x of
        (s, Send_LogonControl) \<Rightarrow>
          continue_logon_control_done s (logon_control_status P) (logon_control_werr P)
      | _ \<Rightarrow> x)"

text \<open>auth_schannel after the authenticated bind has been requested.\<close>

definition auth_schannel_verify ::
  "netlogon_neg \<Rightarrow> netlogon_lib \<Rightarrow> peer \<Rightarrow> auth_schannel_state
     \<Rightarrow> auth_schannel_state \<times> auth_next" where
  "auth_schannel_verify K L P s =
     logon_control_stage P
       (caps2_stage L P
          (caps1_stage K L P
             (continue_bind_auth L s (bind_auth_status P)
                (talloc_fails P Alloc_caps_server_name)
                (talloc_fails P (Alloc_LogonGetCapabilities 1)))))"

text \<open>\<open>dcerpc_bind_auth_schannel_send\<close> to the end of the composite: the state of
  auth_schannel, once the key handshake has succeeded (\<open>None\<close> before), and how the
  composite ends.\<close>

definition dcerpc_bind_auth_schannel ::
  "netlogon_neg \<Rightarrow> netlogon_lib \<Rightarrow> conn_flags \<Rightarrow> loadparm_context \<Rightarrow> netr_SchannelType \<Rightarrow> bool
     \<Rightarrow> peer \<Rightarrow> auth_schannel_state option \<times> auth_next" where
  "dcerpc_bind_auth_schannel K L fl lp schannel_type is_netlogon P =
     (if talloc_fails P Alloc_schannel_key then (None, Auth_Error NT_STATUS_NO_MEMORY)
      else
        case dcerpc_schannel_key K L fl lp schannel_type P of
          (ks, status, sent) \<Rightarrow>
            (case continue_schannel_key is_netlogon status (creds ks)
                    (requested_negotiate_flags ks) (talloc_fails P Alloc_bind_auth) of
               Inl e \<Rightarrow> (None, Auth_Error e)
             | Inr s \<Rightarrow>
                 (case auth_schannel_verify K L P s of (s, a) \<Rightarrow> (Some s, a))))"

section \<open>Concrete surroundings\<close>

text \<open>A small stand-in for the three library functions, of the shape the real ones
  have: the state keeps the local flags, every authenticator advances the sequence
  counter and the rolling credential by one, and a return credential verifies when it
  is the rolling credential plus one. It is used only to run the model on concrete
  handshakes.\<close>

definition sample_lib :: netlogon_lib where
  "sample_lib =
     \<lparr> netlogon_creds_client_init =
         (\<lambda>c1 c2 pwd requested local.
            Some (\<lparr> negotiate_flags = local, session_key = pwd,
                     sequence_counter = 0, rolling_credential = c1 XOR c2 \<rparr>,
                  c1 XOR c2)),
       netlogon_creds_client_authenticator =
         (\<lambda>cs. (NT_STATUS_OK,
                 cs\<lparr>sequence_counter := sequence_counter cs + 1,
                    rolling_credential := rolling_credential cs + 1\<rparr>,
                 \<lparr> cred = rolling_credential cs + 1,
                   timestamp = sequence_counter cs + 1 \<rparr>)),
       netlogon_creds_client_verify =
         (\<lambda>cs c. if c = rolling_credential cs + 1
                  then (NT_STATUS_OK, cs\<lparr>rolling_credential := rolling_credential cs + 1\<rparr>)
                  else (NT_STATUS_ACCESS_DENIED, cs)) \<rparr>"

definition class_auto :: conn_flags where
  "class_auto =
     \<lparr> DCERPC_SCHANNEL_128 = False, DCERPC_SCHANNEL_AES = False, DCERPC_SCHANNEL_AUTO = True \<rparr>"

definition class_legacy :: conn_flags where
  "class_legacy =
     \<lparr> DCERPC_SCHANNEL_128 = False, DCERPC_SCHANNEL_AES = False, DCERPC_SCHANNEL_AUTO = False \<rparr>"

definition lp_default :: loadparm_context where
  "lp_default =
     \<lparr> lpcfg_reject_md5_servers = False, lpcfg_require_strong_key = False,
       lpcfg_weak_crypto = SAMBA_WEAK_CRYPTO_ALLOWED \<rparr>"

definition lp_reject_md5 :: loadparm_context where
  "lp_reject_md5 =
     \<lparr> lpcfg_reject_md5_servers = True, lpcfg_require_strong_key = False,
       lpcfg_weak_crypto = SAMBA_WEAK_CRYPTO_ALLOWED \<rparr>"

definition lp_strong_and_reject :: loadparm_context where
  "lp_strong_and_reject =
     \<lparr> lpcfg_reject_md5_servers = True, lpcfg_require_strong_key = True,
       lpcfg_weak_crypto = SAMBA_WEAK_CRYPTO_ALLOWED \<rparr>"

definition lp_no_weak_crypto :: loadparm_context where
  "lp_no_weak_crypto =
     \<lparr> lpcfg_reject_md5_servers = False, lpcfg_require_strong_key = False,
       lpcfg_weak_crypto = SAMBA_WEAK_CRYPTO_DISALLOWED \<rparr>"

text \<open>A peer of the NT4 kind: it denies the first ServerAuthenticate2 and returns flags
  without AES and strong keys, accepts the second with the same flags, does not know
  LogonGetCapabilities and answers LogonControl with \<open>WERR_NOT_SUPPORTED\<close>. The client
  draws the challenges 0x1111 and 0x2222.\<close>

definition nt4_peer :: peer where
  "nt4_peer =
     \<lparr> talloc_fails = (\<lambda>site. False),
       epm_map_status = NT_STATUS_OK,
       secondary_connection_status = NT_STATUS_OK,
       bind_auth_none_status = NT_STATUS_OK,
       nt_hash = Some 0x5A5A,
       random_buffer = (\<lambda>n. if n = 0 then 0x1111 else 0x2222),
       challenge_reply =
         (\<lambda>n. \<lparr> challenge_status = NT_STATUS_OK, challenge_return_credentials = 0x0F0F \<rparr>),
       auth2_reply =
         (\<lambda>n. if n = 0
               then \<lparr> auth2_status = NT_STATUS_OK, auth2_result = NT_STATUS_ACCESS_DENIED,
                      auth2_negotiate_flags = 0x400701ff, auth2_return_credentials = 0 \<rparr>
               else \<lparr> auth2_status = NT_STATUS_OK, auth2_result = NT_STATUS_OK,
                      auth2_negotiate_flags = 0x400701ff,
                      auth2_return_credentials = (0x2222 XOR 0x0F0F) + 1 \<rparr>),
       bind_auth_status = NT_STATUS_OK,
       capabilities_reply =
         (\<lambda>lvl. \<lparr> caps_status = NT_STATUS_RPC_PROCNUM_OUT_OF_RANGE, caps_result = NT_STATUS_OK,
                   caps_value = 0, caps_return_authenticator = zero_Authenticator \<rparr>),
       logon_control_status = NT_STATUS_OK,
       logon_control_werr = WERR_NOT_SUPPORTED \<rparr>"

text \<open>A peer that behaves like \<open>nt4_peer\<close> in the first attempt and accepts the second
  one with still fewer flags: the authenticated-RPC bit only.\<close>

definition second_downgrade_peer :: peer where
  "second_downgrade_peer =
     nt4_peer\<lparr>auth2_reply :=
       (\<lambda>n. if n = 0
             then \<lparr> auth2_status = NT_STATUS_OK, auth2_result = NT_STATUS_ACCESS_DENIED,
                    auth2_negotiate_flags = 0x400701ff, auth2_return_credentials = 0 \<rparr>
             else \<lparr> auth2_status = NT_STATUS_OK, auth2_result = NT_STATUS_OK,
                    auth2_negotiate_flags = 0x40000000,
                    auth2_return_credentials = (0x2222 XOR 0x0F0F) + 1 \<rparr>)\<rparr>"

text \<open>A peer with AES that accepts the first ServerAuthenticate2 with all the flags
  requested and answers the query of level 1 with them, but, like a Samba server
  without the fix of bug 15418, fails the query of level 2 with
  \<open>NT_STATUS_RPC_BAD_STUB_DATA\<close>; LogonControl returns \<open>WERR_NOT_SUPPORTED\<close>. Its
  credentials are the ones \<open>sample_lib\<close> expects.\<close>

definition unpatched_samba_peer :: peer where
  "unpatched_samba_peer =
     \<lparr> talloc_fails = (\<lambda>site. False),
       epm_map_status = NT_STATUS_OK,
       secondary_connection_status = NT_STATUS_OK,
       bind_auth_none_status = NT_STATUS_OK,
       nt_hash = Some 0x5A5A,
       random_buffer = (\<lambda>n. if n = 0 then 0x1111 else 0x2222),
       challenge_reply =
         (\<lambda>n. \<lparr> challenge_status = NT_STATUS_OK, challenge_return_credentials = 0x0F0F \<rparr>),
       auth2_reply =
         (\<lambda>n. \<lparr> auth2_status = NT_STATUS_OK, auth2_result = NT_STATUS_OK,
                 auth2_negotiate_flags = 0x610fffff, auth2_return_credentials = 0x1E1F \<rparr>),
       bind_auth_status = NT_STATUS_OK,
       capabilities_reply =
         (\<lambda>lvl. if lvl = 1
                 then \<lparr> caps_status = NT_STATUS_OK, caps_result = NT_STATUS_OK,
                        caps_value = 0x610fffff,
                        caps_return_authenticator = \<lparr> cred = 0x1E21, timestamp = 0 \<rparr> \<rparr>
                 else \<lparr> caps_status = NT_STATUS_RPC_BAD_STUB_DATA, caps_result = NT_STATUS_OK,
                        caps_value = 0, caps_return_authenticator = zero_Authenticator \<rparr>),
       logon_control_status = NT_STATUS_OK,
       logon_control_werr = WERR_NOT_SUPPORTED \<rparr>"

text \<open>A peer of the old Samba kind, without AES and strong keys: it accepts the first
  ServerAuthenticate2, returns \<open>NT_STATUS_NOT_IMPLEMENTED\<close> as the result of
  LogonGetCapabilities, and its LogonControl call fails.\<close>

definition old_samba_peer :: peer where
  "old_samba_peer =
     \<lparr> talloc_fails = (\<lambda>site. False),
       epm_map_status = NT_STATUS_OK,
       secondary_connection_status = NT_STATUS_OK,
       bind_auth_none_status = NT_STATUS_OK,
       nt_hash = Some 0x5A5A,
       random_buffer = (\<lambda>n. if n = 0 then 0x1111 else 0x2222),
       challenge_reply =
         (\<lambda>n. \<lparr> challenge_status = NT_STATUS_OK, challenge_return_credentials = 0x0F0F \<rparr>),
       auth2_reply =
         (\<lambda>n. \<lparr> auth2_status = NT_STATUS_OK, auth2_result = NT_STATUS_OK,
                 auth2_negotiate_flags = 0x400701ff, auth2_return_credentials = 0x1E1F \<rparr>),
       bind_auth_status = NT_STATUS_OK,
       capabilities_reply =
         (\<lambda>lvl. \<lparr> caps_status = NT_STATUS_OK, caps_result = NT_STATUS_NOT_IMPLEMENTED,
                   caps_value = 0, caps_return_authenticator = zero_Authenticator \<rparr>),
       logon_control_status = NT_STATUS_ACCESS_DENIED,
       logon_control_werr = WERR_OK \<rparr>"

definition legacy_key_state :: schannel_key_state where
  "legacy_key_state =
     \<lparr> dcerpc_schannel_auto = False, creds = None,
       requested_negotiate_flags = 0x400701ff,
       required_negotiate_flags = 0x40000000,
       local_negotiate_flags = 0x400701ff,
       remote_negotiate_flags = 0,
       credentials1 = 0x1111, credentials2 = 0, credentials3 = 0 \<rparr>"

text \<open>The state of auth_schannel after a key handshake that negotiated \<open>flags\<close> for the
  request \<open>requested\<close>, on the netlogon interface, with the authenticator of the
  pending query computed by \<open>sample_lib\<close>.\<close>

definition sample_auth_state :: "u32 \<Rightarrow> u32 \<Rightarrow> auth_schannel_state" where
  "sample_auth_state requested flags =
     \<lparr> auth_requested_negotiate_flags = requested,
       table_is_netlogon = True,
       creds_state = \<lparr> negotiate_flags = flags, session_key = 0x5A5A,
                       sequence_counter = 0, rolling_credential = 0x10 \<rparr>,
       cli_netlogon_creds = Some \<lparr> negotiate_flags = flags, session_key = 0x5A5A,
                       sequence_counter = 0, rolling_credential = 0x10 \<rparr>,
       save_creds_state = \<lparr> negotiate_flags = flags, session_key = 0x5A5A,
                       sequence_counter = 1, rolling_credential = 0x11 \<rparr>,
       auth = \<lparr> cred = 0x11, timestamp = 1 \<rparr>,
       return_auth = zero_Authenticator,
       capabilities = 0,
       client_caps = 0,
       query_level = 1 \<rparr>"

text \<open>The state of an automatic-class handshake with the default policy, as
  \<open>dcerpc_schannel_key_send\<close> leaves it for \<open>netlogon_idl\<close>, and the same state after one
  downgrade retry against \<open>nt4_peer\<close>.\<close>

definition auto_key_state :: schannel_key_state where
  "auto_key_state =
     \<lparr> dcerpc_schannel_auto = True, creds = None,
       requested_negotiate_flags = 0x610fffff,
       required_negotiate_flags = 0x40000000,
       local_negotiate_flags = 0x610fffff,
       remote_negotiate_flags = 0,
       credentials1 = 0x1111, credentials2 = 0, credentials3 = 0 \<rparr>"

definition retried_key_state :: schannel_key_state where
  "retried_key_state =
     \<lparr> dcerpc_schannel_auto = False,
       creds = Some \<lparr> negotiate_flags = 0x610fffff, session_key = 0x5A5A,
                     sequence_counter = 0, rolling_credential = 0x1111 XOR 0x0F0F \<rparr>,
       requested_negotiate_flags = 0x610fffff,
       required_negotiate_flags = 0x40000000,
       local_negotiate_flags = 0x400701ff,
       remote_negotiate_flags = 0x400701ff,
       credentials1 = 0x2222, credentials2 = 0x0F0F, credentials3 = 0 \<rparr>"

section \<open>Facts used by several proofs\<close>

lemma netlogon_idl_simps:
  "NETLOGON_NEG_AUTH2_FLAGS netlogon_idl = 0x000701ff"
  "NETLOGON_NEG_AUTH2_ADS_FLAGS netlogon_idl = 0x600fffff"
  "NETLOGON_NEG_AUTHENTICATED_RPC netlogon_idl = 0x40000000"
  "NETLOGON_NEG_ARCFOUR netlogon_idl = 0x00000004"
  "NETLOGON_NEG_STRONG_KEYS netlogon_idl = 0x00004000"
  "NETLOGON_NEG_PASSWORD_SET2 netlogon_idl = 0x00020000"
  "NETLOGON_NEG_SUPPORTS_AES netlogon_idl = 0x01000000"
  "NETLOGON_NEG_RODC_PASSTHROUGH netlogon_idl = 0x00200000"
  by (simp_all add: netlogon_idl_def)

lemmas key_send_defs =
  dcerpc_schannel_key_send_def key_send_required_policy_def key_send_required_final_def
  key_send_class_flags_def key_send_require_strong_key_def key_send_reject_md5_servers_def

lemmas srv_auth2_defs =
  continue_srv_auth2_def srv_auth2_downgrade_def srv_auth2_rqf_def
  srv_auth2_access_denied_def srv_auth2_verify_def

lemma missing_bit: "(a AND b \<noteq> a) = (\<exists>n. bit a n \<and> \<not> bit b n)" for a b :: u32
proof
  assume "a AND b \<noteq> a"
  then obtain n where "bit (a AND b) n \<noteq> bit a n"
    by (auto simp add: bit_eq_iff)
  then show "\<exists>n. bit a n \<and> \<not> bit b n"
    by (auto simp add: bit_and_iff)
next
  assume "\<exists>n. bit a n \<and> \<not> bit b n"
  then obtain n where n: "bit a n" "\<not> bit b n" by blast
  show "a AND b \<noteq> a"
  proof
    assume "a AND b = a"
    then have "bit (a AND b) n = bit a n" by simp
    with n show False by (simp add: bit_and_iff)
  qed
qed

lemma schannel_key_attempt_challenge:
  "schannel_key_attempt K L P n s = (s', Inr c) \<Longrightarrow>
     c = random_buffer P (Suc n) \<and> credentials1 s' = c"
  by (auto simp: schannel_key_attempt_def continue_srv_auth2_def srv_auth2_access_denied_def
                 Let_def srv_auth2_verify_no_retry
           split: prod.splits sum.splits srv_auth2_next.splits if_splits)

lemma schannel_key_attempts_no_auto:
  "\<not> dcerpc_schannel_auto s \<Longrightarrow> snd (snd (schannel_key_attempts K L P n s sent)) = sent"
  by (subst schannel_key_attempts.simps)
     (auto split: prod.splits sum.splits dest: schannel_key_attempt_retry)

lemma schannel_key_attempts_sent:
  "snd (snd (schannel_key_attempts K L P n s sent)) = sent \<or>
   snd (snd (schannel_key_attempts K L P n s sent)) = sent @ [random_buffer P (Suc n)]"
proof (cases "schannel_key_attempt K L P n s")
  case (Pair s' r)
  show ?thesis
  proof (cases r)
    case (Inl e)
    with Pair show ?thesis by (subst (1 2) schannel_key_attempts.simps) simp
  next
    case (Inr c)
    with Pair have a: "\<not> dcerpc_schannel_auto s'" and c: "c = random_buffer P (Suc n)"
      using schannel_key_attempt_retry schannel_key_attempt_challenge by blast+
    from Pair Inr have "schannel_key_attempts K L P n s sent =
        schannel_key_attempts K L P (Suc n) s' (sent @ [c])"
      by (subst schannel_key_attempts.simps) simp
    with schannel_key_attempts_no_auto[OF a] c show ?thesis by simp
  qed
qed

lemma dcerpc_schannel_key_sent:
  "snd (snd (dcerpc_schannel_key K L fl lp t P))
     \<in> {[], [random_buffer P 0], [random_buffer P 0, random_buffer P 1]}"
  using schannel_key_attempts_sent[of K L P 0 _ "[random_buffer P 0]"]
  by (auto simp: dcerpc_schannel_key_def continue_bind_auth_none_def Let_def
           split: sum.splits prod.splits if_splits)

lemma nt4_attempt0:
  "schannel_key_attempt netlogon_idl sample_lib nt4_peer 0 auto_key_state = (retried_key_state, Inr 0x2222)"
  by (simp add: schannel_key_attempt_def continue_srv_challenge_def srv_auth2_defs nt4_peer_def
        sample_lib_def auto_key_state_def retried_key_state_def netlogon_idl_simps Let_def)

lemma nt4_attempt1:
  "snd (schannel_key_attempt netlogon_idl sample_lib nt4_peer (Suc 0) retried_key_state) = Inl NT_STATUS_OK"
  by (simp add: schannel_key_attempt_def continue_srv_challenge_def srv_auth2_defs nt4_peer_def
        sample_lib_def retried_key_state_def netlogon_idl_simps Let_def)

lemma nt4_key_sent:
  "snd (dcerpc_schannel_key netlogon_idl sample_lib class_auto lp_default SEC_CHAN_WKSTA nt4_peer)
     = (NT_STATUS_OK, [0x1111, 0x2222])"
proof -
  have a: "dcerpc_schannel_key_send netlogon_idl class_auto lp_default SEC_CHAN_WKSTA
             = auto_key_state\<lparr>credentials1 := 0\<rparr>"
    by (simp add: key_send_defs netlogon_idl_simps class_auto_def lp_default_def
          auto_key_state_def Let_def)
  have b: "dcerpc_schannel_key netlogon_idl sample_lib class_auto lp_default SEC_CHAN_WKSTA nt4_peer
             = schannel_key_attempts netlogon_idl sample_lib nt4_peer 0 auto_key_state [0x1111]"
    unfolding dcerpc_schannel_key_def a
    by (simp add: continue_epm_map_binding_def continue_secondary_connection_def
          continue_bind_auth_none_def nt4_peer_def auto_key_state_def Let_def)
  obtain s2 where c: "schannel_key_attempt netlogon_idl sample_lib nt4_peer (Suc 0) retried_key_state
      = (s2, Inl NT_STATUS_OK)"
    using nt4_attempt1 by (metis prod.collapse)
  show ?thesis
    unfolding b
    by (subst schannel_key_attempts.simps, simp add: nt4_attempt0,
        subst schannel_key_attempts.simps, simp add: c)
qed

section \<open>Every handshake ends\<close>

text \<open>auth_schannel never stops with a request pending: its composite is done or has
  failed.\<close>

lemma continue_bind_auth_next:
  "snd (continue_bind_auth L s status name_nomem nomem) = Auth_Done
   \<or> (\<exists>e. snd (continue_bind_auth L s status name_nomem nomem) = Auth_Error e)
   \<or> (\<exists>a. snd (continue_bind_auth L s status name_nomem nomem) = Send_LogonGetCapabilities 1 a)"
  by (auto simp: continue_bind_auth_def Let_def split: prod.splits)

lemma continue_get_negotiated_capabilities_next:
  "snd (continue_get_negotiated_capabilities K L s rep control_nomem nomem) = Auth_Done
   \<or> (\<exists>e. snd (continue_get_negotiated_capabilities K L s rep control_nomem nomem)
            = Auth_Error e)
   \<or> snd (continue_get_negotiated_capabilities K L s rep control_nomem nomem)
       = Send_LogonControl
   \<or> (\<exists>a. snd (continue_get_negotiated_capabilities K L s rep control_nomem nomem)
            = Send_LogonGetCapabilities 2 a)"
  by (auto simp: continue_get_negotiated_capabilities_def continue_logon_control_do_def Let_def
           split: prod.splits)

lemma continue_get_client_capabilities_next:
  "snd (continue_get_client_capabilities L s rep nomem) = Auth_Done
   \<or> (\<exists>e. snd (continue_get_client_capabilities L s rep nomem) = Auth_Error e)
   \<or> snd (continue_get_client_capabilities L s rep nomem) = Send_LogonControl"
  by (auto simp: continue_get_client_capabilities_def continue_logon_control_do_def Let_def
           split: prod.splits)

lemma continue_logon_control_done_next:
  "snd (continue_logon_control_done s status werr) = Auth_Done
   \<or> (\<exists>e. snd (continue_logon_control_done s status werr) = Auth_Error e)"
  by (simp add: continue_logon_control_done_def)

lemma caps1_stage_next:
  "snd x = Auth_Done \<or> (\<exists>e. snd x = Auth_Error e) \<or> (\<exists>a. snd x = Send_LogonGetCapabilities 1 a)
   \<Longrightarrow> snd (caps1_stage K L P x) = Auth_Done
       \<or> (\<exists>e. snd (caps1_stage K L P x) = Auth_Error e)
       \<or> snd (caps1_stage K L P x) = Send_LogonControl
       \<or> (\<exists>a. snd (caps1_stage K L P x) = Send_LogonGetCapabilities 2 a)"
  using continue_get_negotiated_capabilities_next
    [of K L "fst x" "capabilities_reply P 1" "talloc_fails P Alloc_LogonControl"
        "talloc_fails P (Alloc_LogonGetCapabilities 2)"]
  by (cases x) (auto simp: caps1_stage_def)

lemma caps2_stage_next:
  "snd x = Auth_Done \<or> (\<exists>e. snd x = Auth_Error e) \<or> snd x = Send_LogonControl
     \<or> (\<exists>a. snd x = Send_LogonGetCapabilities 2 a)
   \<Longrightarrow> snd (caps2_stage L P x) = Auth_Done
       \<or> (\<exists>e. snd (caps2_stage L P x) = Auth_Error e)
       \<or> snd (caps2_stage L P x) = Send_LogonControl"
  using continue_get_client_capabilities_next
    [of L "fst x" "capabilities_reply P 2" "talloc_fails P Alloc_LogonControl"]
  by (cases x) (auto simp: caps2_stage_def)

lemma logon_control_stage_next:
  "snd x = Auth_Done \<or> (\<exists>e. snd x = Auth_Error e) \<or> snd x = Send_LogonControl
   \<Longrightarrow> snd (logon_control_stage P x) = Auth_Done
       \<or> (\<exists>e. snd (logon_control_stage P x) = Auth_Error e)"
  using continue_logon_control_done_next
    [of "fst x" "logon_control_status P" "logon_control_werr P"]
  by (cases x) (auto simp: logon_control_stage_def)

lemma auth_schannel_verify_ends:
  "snd (auth_schannel_verify K L P s) = Auth_Done
   \<or> (\<exists>e. snd (auth_schannel_verify K L P s) = Auth_Error e)"
  unfolding auth_schannel_verify_def
  by (intro logon_control_stage_next caps2_stage_next caps1_stage_next
        continue_bind_auth_next)

lemma dcerpc_bind_auth_schannel_ends:
  "snd (dcerpc_bind_auth_schannel K L fl lp t is_netlogon P) = Auth_Done
   \<or> (\<exists>e. snd (dcerpc_bind_auth_schannel K L fl lp t is_netlogon P) = Auth_Error e)"
proof (cases "talloc_fails P Alloc_schannel_key")
  case True
  then show ?thesis by (simp add: dcerpc_bind_auth_schannel_def)
next
  case False
  obtain ks status sent where k: "dcerpc_schannel_key K L fl lp t P = (ks, status, sent)"
    by (metis prod.collapse)
  show ?thesis
  proof (cases "continue_schannel_key is_netlogon status (creds ks)
                  (requested_negotiate_flags ks) (talloc_fails P Alloc_bind_auth)")
    case (Inl e)
    with False k show ?thesis by (simp add: dcerpc_bind_auth_schannel_def)
  next
    case (Inr s)
    with False k have "snd (dcerpc_bind_auth_schannel K L fl lp t is_netlogon P)
        = snd (auth_schannel_verify K L P s)"
      by (simp add: dcerpc_bind_auth_schannel_def split: prod.splits)
    with auth_schannel_verify_ends [of K L P s] show ?thesis by simp
  qed
qed

text \<open>A key handshake that ends with \<open>NT_STATUS_OK\<close> has set \<open>creds\<close>, so
  \<open>continue_schannel_key\<close> finds it.\<close>

lemma schannel_key_attempt_ok:
  "schannel_key_attempt K L P n s = (s', Inl NT_STATUS_OK) \<Longrightarrow> creds s' \<noteq> None"
  by (auto simp: schannel_key_attempt_def continue_srv_challenge_def srv_auth2_defs Let_def
           split: prod.splits sum.splits srv_auth2_next.splits if_splits option.splits)

lemma schannel_key_attempts_ok:
  "fst (snd (schannel_key_attempts K L P n s sent)) = NT_STATUS_OK \<Longrightarrow>
     creds (fst (schannel_key_attempts K L P n s sent)) \<noteq> None"
proof (induction K L P n s sent rule: schannel_key_attempts.induct)
  case (1 K L P n s sent)
  show ?case
  proof (cases "schannel_key_attempt K L P n s")
    case (Pair s' r)
    show ?thesis
    proof (cases r)
      case (Inl e)
      with Pair "1.prems" schannel_key_attempt_ok [of K L P n s s'] show ?thesis
        by (subst schannel_key_attempts.simps)
           (auto simp: schannel_key_attempts.simps [of K L P n s sent])
    next
      case (Inr c)
      with Pair "1.prems" "1.IH" [of s' "Inr c" c] show ?thesis
        by (simp add: schannel_key_attempts.simps [of K L P n s sent])
    qed
  qed
qed

lemma dcerpc_schannel_key_ok:
  "fst (snd (dcerpc_schannel_key K L fl lp t P)) = NT_STATUS_OK \<Longrightarrow>
     creds (fst (dcerpc_schannel_key K L fl lp t P)) \<noteq> None"
  using schannel_key_attempts_ok
  by (auto simp: dcerpc_schannel_key_def continue_epm_map_binding_def
                 continue_secondary_connection_def continue_bind_auth_none_def Let_def
           split: sum.splits prod.splits if_splits)

section \<open>Downgrade detection and the single retry\<close>

lemma second_downgrade_key:
  "dcerpc_schannel_key netlogon_idl sample_lib class_auto lp_default SEC_CHAN_WKSTA
       second_downgrade_peer
     = (retried_key_state
          \<lparr>creds := Some \<lparr> negotiate_flags = 0x400701ff, session_key = 0x5A5A,
                           sequence_counter = 0, rolling_credential = 0x2D2E \<rparr>,
           remote_negotiate_flags := 0x40000000, credentials3 := 0x2D2E\<rparr>,
        NT_STATUS_DOWNGRADE_DETECTED, [0x1111, 0x2222])"
proof -
  have a: "dcerpc_schannel_key_send netlogon_idl class_auto lp_default SEC_CHAN_WKSTA
             = auto_key_state\<lparr>credentials1 := 0\<rparr>"
    by (simp add: key_send_defs netlogon_idl_simps class_auto_def lp_default_def
          auto_key_state_def Let_def)
  have b: "dcerpc_schannel_key netlogon_idl sample_lib class_auto lp_default SEC_CHAN_WKSTA
               second_downgrade_peer
             = schannel_key_attempts netlogon_idl sample_lib second_downgrade_peer 0
                 auto_key_state [0x1111]"
    unfolding dcerpc_schannel_key_def a
    by (simp add: continue_epm_map_binding_def continue_secondary_connection_def
          continue_bind_auth_none_def second_downgrade_peer_def nt4_peer_def
          auto_key_state_def Let_def)
  have c: "schannel_key_attempt netlogon_idl sample_lib second_downgrade_peer 0 auto_key_state
             = (retried_key_state, Inr 0x2222)"
    by (simp add: schannel_key_attempt_def continue_srv_challenge_def srv_auth2_defs
          second_downgrade_peer_def nt4_peer_def sample_lib_def auto_key_state_def
          retried_key_state_def netlogon_idl_simps Let_def)
  have d: "schannel_key_attempt netlogon_idl sample_lib second_downgrade_peer (Suc 0)
               retried_key_state
             = (retried_key_state
                  \<lparr>creds := Some \<lparr> negotiate_flags = 0x400701ff, session_key = 0x5A5A,
                                   sequence_counter = 0, rolling_credential = 0x2D2E \<rparr>,
                   remote_negotiate_flags := 0x40000000, credentials3 := 0x2D2E\<rparr>,
                Inl NT_STATUS_DOWNGRADE_DETECTED)"
    by (simp add: schannel_key_attempt_def continue_srv_challenge_def srv_auth2_defs
          second_downgrade_peer_def nt4_peer_def sample_lib_def retried_key_state_def
          netlogon_idl_simps Let_def)
  show ?thesis
    unfolding b
    by (subst schannel_key_attempts.simps, simp add: c,
        subst schannel_key_attempts.simps, simp add: d)
qed

text \<open>
  C1, as the specification states it, fails where it says "if and only if" of the
  attempt. Against \<open>second_downgrade_peer\<close> the handshake retries with the local flags
  narrowed to 0x400701ff, and the second attempt, which the peer accepts with the flags
  0x40000000, ends with \<open>NT_STATUS_DOWNGRADE_DETECTED\<close> although these flags cover the
  whole requirement 0x40000000: they differ from the narrowed local flags (line 354). And
  an attempt whose result is neither \<open>NT_STATUS_OK\<close> nor \<open>NT_STATUS_ACCESS_DENIED\<close> ends
  with that result although the returned flags miss the requirement.
\<close>

theorem C1_downgrade_detection_counterexample:
  "dcerpc_schannel_key netlogon_idl sample_lib class_auto lp_default SEC_CHAN_WKSTA
       second_downgrade_peer
     = (retried_key_state
          \<lparr>creds := Some \<lparr> negotiate_flags = 0x400701ff, session_key = 0x5A5A,
                           sequence_counter = 0, rolling_credential = 0x2D2E \<rparr>,
           remote_negotiate_flags := 0x40000000, credentials3 := 0x2D2E\<rparr>,
        NT_STATUS_DOWNGRADE_DETECTED, [0x1111, 0x2222])
   \<and> auth2_negotiate_flags (auth2_reply second_downgrade_peer 1) = 0x40000000
   \<and> continue_srv_auth2 netlogon_idl sample_lib retried_key_state
       \<lparr> auth2_status = NT_STATUS_OK, auth2_result = NT_STATUS_OK,
         auth2_negotiate_flags = 0x40000000, auth2_return_credentials = 0x1E1F \<rparr>
       0x3333 False
     = (retried_key_state
          \<lparr>remote_negotiate_flags := 0x40000000, credentials3 := 0x1E1F,
           creds := Some \<lparr> negotiate_flags = 0x610fffff, session_key = 0x5A5A,
                           sequence_counter = 0, rolling_credential = 0x1E1F \<rparr>\<rparr>,
        Schannel_Key_Error NT_STATUS_DOWNGRADE_DETECTED)
   \<and> required_negotiate_flags retried_key_state AND 0x40000000
       = required_negotiate_flags retried_key_state
   \<and> srv_auth2_rqf netlogon_idl (required_negotiate_flags retried_key_state) 0x40000000
         (local_negotiate_flags retried_key_state)
       = required_negotiate_flags retried_key_state
   \<and> continue_srv_auth2 netlogon_idl sample_lib auto_key_state
       \<lparr> auth2_status = NT_STATUS_OK, auth2_result = NT_STATUS_INTERNAL_ERROR,
         auth2_negotiate_flags = 0, auth2_return_credentials = 0 \<rparr>
       0x2222 False
     = (auto_key_state, Schannel_Key_Error NT_STATUS_INTERNAL_ERROR)
   \<and> required_negotiate_flags auto_key_state AND 0 \<noteq> required_negotiate_flags auto_key_state"
  using second_downgrade_key
  by (simp add: srv_auth2_defs retried_key_state_def auto_key_state_def sample_lib_def
        second_downgrade_peer_def netlogon_idl_simps Let_def)

text \<open>
  C1, amended. After each ServerAuthenticate2 that came back with the result
  \<open>NT_STATUS_OK\<close> or \<open>NT_STATUS_ACCESS_DENIED\<close>, the required flags are compared with the
  flags the peer returned. When the peer's flags and the local flags both hold the AES
  bit, the RC4 and strong-keys bits are dropped from the requirement first. The
  comparison ends the attempt with \<open>NT_STATUS_DOWNGRADE_DETECTED\<close> exactly when some bit
  of that requirement is missing from the peer's flags; when it passes, stage 6 goes on
  to the retry branch or to the verification. For an access-denied result this is the
  only way to \<open>NT_STATUS_DOWNGRADE_DETECTED\<close>; an accepted attempt whose credential
  verifies ends with it also when the local flags have been narrowed by a retry and
  differ from the peer's flags. With AES on both sides, a requirement of RC4 and
  strong-keys bits only never fails the comparison.
\<close>

theorem C1_downgrade_detection:
  "(srv_auth2_rqf K required negotiated local_max =
      (if negotiated AND NETLOGON_NEG_SUPPORTS_AES K \<noteq> 0
          \<and> local_max AND NETLOGON_NEG_SUPPORTS_AES K \<noteq> 0
       then required AND NOT (NETLOGON_NEG_ARCFOUR K OR NETLOGON_NEG_STRONG_KEYS K)
       else required))
   \<and> (srv_auth2_downgrade K required negotiated local_max =
        (srv_auth2_rqf K required negotiated local_max AND negotiated
           \<noteq> srv_auth2_rqf K required negotiated local_max))
   \<and> (srv_auth2_downgrade K required negotiated local_max =
        (\<exists>n. bit (srv_auth2_rqf K required negotiated local_max) n \<and> \<not> bit negotiated n))
   \<and> (auth2_status rep = NT_STATUS_OK
        \<and> (auth2_result rep = NT_STATUS_OK \<or> auth2_result rep = NT_STATUS_ACCESS_DENIED)
        \<and> srv_auth2_downgrade K (required_negotiate_flags s) (auth2_negotiate_flags rep)
              (local_negotiate_flags s)
      \<longrightarrow> snd (continue_srv_auth2 K L s rep rnd nomem)
            = Schannel_Key_Error NT_STATUS_DOWNGRADE_DETECTED)
   \<and> (auth2_status rep = NT_STATUS_OK
        \<and> (auth2_result rep = NT_STATUS_OK \<or> auth2_result rep = NT_STATUS_ACCESS_DENIED)
        \<and> \<not> srv_auth2_downgrade K (required_negotiate_flags s) (auth2_negotiate_flags rep)
              (local_negotiate_flags s)
      \<longrightarrow> continue_srv_auth2 K L s rep rnd nomem =
            (if auth2_result rep = NT_STATUS_ACCESS_DENIED
             then srv_auth2_access_denied K
                    (s\<lparr>remote_negotiate_flags := auth2_negotiate_flags rep,
                       credentials3 := auth2_return_credentials rep\<rparr>)
                    NT_STATUS_ACCESS_DENIED rnd nomem
             else srv_auth2_verify L
                    (s\<lparr>remote_negotiate_flags := auth2_negotiate_flags rep,
                       credentials3 := auth2_return_credentials rep\<rparr>)))
   \<and> (auth2_status rep = NT_STATUS_OK \<and> auth2_result rep = NT_STATUS_ACCESS_DENIED
      \<longrightarrow> (snd (continue_srv_auth2 K L s rep rnd nomem)
              = Schannel_Key_Error NT_STATUS_DOWNGRADE_DETECTED)
          = srv_auth2_downgrade K (required_negotiate_flags s) (auth2_negotiate_flags rep)
              (local_negotiate_flags s))
   \<and> (auth2_status rep = NT_STATUS_OK \<and> auth2_result rep = NT_STATUS_OK
        \<and> creds s = Some cs
        \<and> fst (netlogon_creds_client_verify L cs (auth2_return_credentials rep)) = NT_STATUS_OK
      \<longrightarrow> (snd (continue_srv_auth2 K L s rep rnd nomem)
              = Schannel_Key_Error NT_STATUS_DOWNGRADE_DETECTED)
          = (srv_auth2_downgrade K (required_negotiate_flags s) (auth2_negotiate_flags rep)
               (local_negotiate_flags s)
             \<or> requested_negotiate_flags s \<noteq> local_negotiate_flags s
                \<and> local_negotiate_flags s \<noteq> auth2_negotiate_flags rep))
   \<and> (negotiated AND NETLOGON_NEG_SUPPORTS_AES K \<noteq> 0
        \<and> local_max AND NETLOGON_NEG_SUPPORTS_AES K \<noteq> 0
        \<and> required AND NOT (NETLOGON_NEG_ARCFOUR K OR NETLOGON_NEG_STRONG_KEYS K) = 0
      \<longrightarrow> \<not> srv_auth2_downgrade K required negotiated local_max)"
proof -
  have drop: "x AND NOT a AND NOT b = x AND NOT (a OR b)" for x a b :: u32
    by (simp add: bit_eq_iff bit_and_iff bit_not_iff bit_or_iff)
  have rqf: "srv_auth2_rqf K required negotiated local_max =
      (if negotiated AND NETLOGON_NEG_SUPPORTS_AES K \<noteq> 0
          \<and> local_max AND NETLOGON_NEG_SUPPORTS_AES K \<noteq> 0
       then required AND NOT (NETLOGON_NEG_ARCFOUR K OR NETLOGON_NEG_STRONG_KEYS K)
       else required)"
    unfolding srv_auth2_rqf_def drop by (rule refl)
  have bits: "srv_auth2_downgrade K required negotiated local_max =
        (\<exists>n. bit (srv_auth2_rqf K required negotiated local_max) n \<and> \<not> bit negotiated n)"
    by (simp add: srv_auth2_downgrade_def missing_bit)
  have super: "negotiated AND NETLOGON_NEG_SUPPORTS_AES K \<noteq> 0
        \<and> local_max AND NETLOGON_NEG_SUPPORTS_AES K \<noteq> 0
        \<and> required AND NOT (NETLOGON_NEG_ARCFOUR K OR NETLOGON_NEG_STRONG_KEYS K) = 0
      \<longrightarrow> \<not> srv_auth2_downgrade K required negotiated local_max"
    unfolding srv_auth2_downgrade_def rqf by simp
  have fails: "auth2_status rep = NT_STATUS_OK
        \<and> (auth2_result rep = NT_STATUS_OK \<or> auth2_result rep = NT_STATUS_ACCESS_DENIED)
        \<and> srv_auth2_downgrade K (required_negotiate_flags s) (auth2_negotiate_flags rep)
              (local_negotiate_flags s)
      \<longrightarrow> snd (continue_srv_auth2 K L s rep rnd nomem)
            = Schannel_Key_Error NT_STATUS_DOWNGRADE_DETECTED"
    by (simp add: continue_srv_auth2_def Let_def)
  have passes: "auth2_status rep = NT_STATUS_OK
        \<and> (auth2_result rep = NT_STATUS_OK \<or> auth2_result rep = NT_STATUS_ACCESS_DENIED)
        \<and> \<not> srv_auth2_downgrade K (required_negotiate_flags s) (auth2_negotiate_flags rep)
              (local_negotiate_flags s)
      \<longrightarrow> continue_srv_auth2 K L s rep rnd nomem =
            (if auth2_result rep = NT_STATUS_ACCESS_DENIED
             then srv_auth2_access_denied K
                    (s\<lparr>remote_negotiate_flags := auth2_negotiate_flags rep,
                       credentials3 := auth2_return_credentials rep\<rparr>)
                    NT_STATUS_ACCESS_DENIED rnd nomem
             else srv_auth2_verify L
                    (s\<lparr>remote_negotiate_flags := auth2_negotiate_flags rep,
                       credentials3 := auth2_return_credentials rep\<rparr>))"
    by (auto simp add: continue_srv_auth2_def Let_def)
  have denied: "auth2_status rep = NT_STATUS_OK \<and> auth2_result rep = NT_STATUS_ACCESS_DENIED
      \<longrightarrow> (snd (continue_srv_auth2 K L s rep rnd nomem)
              = Schannel_Key_Error NT_STATUS_DOWNGRADE_DETECTED)
          = srv_auth2_downgrade K (required_negotiate_flags s) (auth2_negotiate_flags rep)
              (local_negotiate_flags s)"
    by (auto simp add: continue_srv_auth2_def srv_auth2_access_denied_def Let_def)
  have granted: "auth2_status rep = NT_STATUS_OK \<and> auth2_result rep = NT_STATUS_OK
        \<and> creds s = Some cs
        \<and> fst (netlogon_creds_client_verify L cs (auth2_return_credentials rep)) = NT_STATUS_OK
      \<longrightarrow> (snd (continue_srv_auth2 K L s rep rnd nomem)
              = Schannel_Key_Error NT_STATUS_DOWNGRADE_DETECTED)
          = (srv_auth2_downgrade K (required_negotiate_flags s) (auth2_negotiate_flags rep)
               (local_negotiate_flags s)
             \<or> requested_negotiate_flags s \<noteq> local_negotiate_flags s
                \<and> local_negotiate_flags s \<noteq> auth2_negotiate_flags rep)"
    by (auto simp add: continue_srv_auth2_def srv_auth2_verify_def Let_def split: prod.splits)
  show ?thesis
    by (intro conjI rqf bits super fails passes denied granted)
       (simp add: srv_auth2_downgrade_def)
qed

theorem C1_downgrade_detection_witness:
  "srv_auth2_downgrade netlogon_idl 0x40004004 0x400701ff 0x610fffff
   \<and> \<not> srv_auth2_downgrade netlogon_idl 0x00004004 0x41000000 0x610fffff
   \<and> snd (continue_srv_auth2 netlogon_idl sample_lib
            (auto_key_state\<lparr>required_negotiate_flags := 0x40004004\<rparr>)
            (auth2_reply nt4_peer 0) 0x2222 False)
       = Schannel_Key_Error NT_STATUS_DOWNGRADE_DETECTED
   \<and> snd (continue_srv_auth2 netlogon_idl sample_lib auto_key_state
            (auth2_reply nt4_peer 0) 0x2222 False)
       = Retry_ServerReqChallenge 0x2222
   \<and> creds retried_key_state
       = Some \<lparr> negotiate_flags = 0x610fffff, session_key = 0x5A5A,
                sequence_counter = 0, rolling_credential = 0x1E1E \<rparr>
   \<and> snd (continue_srv_auth2 netlogon_idl sample_lib retried_key_state
            \<lparr> auth2_status = NT_STATUS_OK, auth2_result = NT_STATUS_OK,
              auth2_negotiate_flags = 0x400701ff, auth2_return_credentials = 0x1E1F \<rparr>
            0x3333 False)
       = Schannel_Key_Done"
  using C1_downgrade_detection [of netlogon_idl "0x00004004" "0x41000000" "0x610fffff"
          "auth2_reply nt4_peer 0" "auto_key_state\<lparr>required_negotiate_flags := 0x40004004\<rparr>"
          sample_lib "0x2222" False]
        C1_downgrade_detection [of netlogon_idl "0x40004004" "0x400701ff" "0x610fffff"
          "auth2_reply nt4_peer 0" auto_key_state sample_lib "0x2222" False]
        C1_downgrade_detection [of netlogon_idl "0x40004004" "0x400701ff" "0x610fffff"
          "\<lparr> auth2_status = NT_STATUS_OK, auth2_result = NT_STATUS_OK,
             auth2_negotiate_flags = 0x400701ff, auth2_return_credentials = 0x1E1F \<rparr>"
          retried_key_state sample_lib "0x3333" False
          "\<lparr> negotiate_flags = 0x610fffff, session_key = 0x5A5A,
             sequence_counter = 0, rolling_credential = 0x1E1E \<rparr>"]
  by (simp add: netlogon_idl_simps nt4_peer_def auto_key_state_def retried_key_state_def
        sample_lib_def srv_auth2_downgrade_def srv_auth2_rqf_def srv_auth2_access_denied_def
        srv_auth2_verify_def Let_def)

text \<open>
  C2. Stage 6 sends a second ServerReqChallenge only when the result of
  ServerAuthenticate2 is \<open>NT_STATUS_ACCESS_DENIED\<close>, \<open>dcerpc_schannel_auto\<close> is set and the
  peer's flags do not cover the local flags; it clears \<open>dcerpc_schannel_auto\<close> and narrows
  the local flags to the common ones. With \<open>dcerpc_schannel_auto\<close> cleared, or with
  unchanged flags, an access-denied result ends the handshake with that status (or with
  \<open>NT_STATUS_DOWNGRADE_DETECTED\<close> from the comparison before it). So no handshake sends
  more than two client challenges: there is at most one retry.
\<close>

theorem C2_single_retry:
  "(continue_srv_auth2 K L s rep rnd nomem = (s', Retry_ServerReqChallenge c) \<longrightarrow>
      auth2_result rep = NT_STATUS_ACCESS_DENIED
      \<and> dcerpc_schannel_auto s
      \<and> local_negotiate_flags s AND auth2_negotiate_flags rep \<noteq> local_negotiate_flags s
      \<and> \<not> dcerpc_schannel_auto s'
      \<and> local_negotiate_flags s' = local_negotiate_flags s AND auth2_negotiate_flags rep)
   \<and> (\<not> dcerpc_schannel_auto s \<longrightarrow>
        snd (continue_srv_auth2 K L s rep rnd nomem) \<noteq> Retry_ServerReqChallenge c)
   \<and> (auth2_status rep = NT_STATUS_OK \<and> auth2_result rep = NT_STATUS_ACCESS_DENIED
        \<and> (\<not> dcerpc_schannel_auto s
            \<or> local_negotiate_flags s AND auth2_negotiate_flags rep = local_negotiate_flags s)
      \<longrightarrow> snd (continue_srv_auth2 K L s rep rnd nomem) = Schannel_Key_Error NT_STATUS_ACCESS_DENIED
          \<or> snd (continue_srv_auth2 K L s rep rnd nomem)
               = Schannel_Key_Error NT_STATUS_DOWNGRADE_DETECTED)
   \<and> (auth2_status rep = NT_STATUS_OK \<and> auth2_result rep = NT_STATUS_ACCESS_DENIED
        \<and> (\<not> dcerpc_schannel_auto s
            \<or> local_negotiate_flags s AND auth2_negotiate_flags rep = local_negotiate_flags s)
        \<and> \<not> srv_auth2_downgrade K (required_negotiate_flags s) (auth2_negotiate_flags rep)
              (local_negotiate_flags s)
      \<longrightarrow> snd (continue_srv_auth2 K L s rep rnd nomem)
            = Schannel_Key_Error NT_STATUS_ACCESS_DENIED)
   \<and> (\<not> dcerpc_schannel_auto s \<longrightarrow>
        snd (snd (schannel_key_attempts K L P n s sent)) = sent)
   \<and> length (snd (snd (schannel_key_attempts K L P n s sent))) \<le> Suc (length sent)
   \<and> length (snd (snd (dcerpc_schannel_key K L fl lp t P))) \<le> 2"
proof -
  have only_when: "continue_srv_auth2 K L s rep rnd nomem = (s', Retry_ServerReqChallenge c) \<longrightarrow>
      auth2_result rep = NT_STATUS_ACCESS_DENIED
      \<and> dcerpc_schannel_auto s
      \<and> local_negotiate_flags s AND auth2_negotiate_flags rep \<noteq> local_negotiate_flags s
      \<and> \<not> dcerpc_schannel_auto s'
      \<and> local_negotiate_flags s' = local_negotiate_flags s AND auth2_negotiate_flags rep"
    by (auto simp: continue_srv_auth2_def srv_auth2_access_denied_def Let_def
                   srv_auth2_verify_no_retry split: if_splits)
  have never: "\<not> dcerpc_schannel_auto s \<longrightarrow>
        snd (continue_srv_auth2 K L s rep rnd nomem) \<noteq> Retry_ServerReqChallenge c"
    using continue_srv_auth2_retry [of K L s rep rnd nomem "fst (continue_srv_auth2 K L s rep rnd nomem)" c]
    by (metis prod.collapse)
  have fatal: "auth2_status rep = NT_STATUS_OK \<and> auth2_result rep = NT_STATUS_ACCESS_DENIED
        \<and> (\<not> dcerpc_schannel_auto s
            \<or> local_negotiate_flags s AND auth2_negotiate_flags rep = local_negotiate_flags s)
      \<longrightarrow> snd (continue_srv_auth2 K L s rep rnd nomem) = Schannel_Key_Error NT_STATUS_ACCESS_DENIED
          \<or> snd (continue_srv_auth2 K L s rep rnd nomem)
               = Schannel_Key_Error NT_STATUS_DOWNGRADE_DETECTED"
    by (auto simp: continue_srv_auth2_def srv_auth2_access_denied_def Let_def)
  have surfaces: "auth2_status rep = NT_STATUS_OK \<and> auth2_result rep = NT_STATUS_ACCESS_DENIED
        \<and> (\<not> dcerpc_schannel_auto s
            \<or> local_negotiate_flags s AND auth2_negotiate_flags rep = local_negotiate_flags s)
        \<and> \<not> srv_auth2_downgrade K (required_negotiate_flags s) (auth2_negotiate_flags rep)
              (local_negotiate_flags s)
      \<longrightarrow> snd (continue_srv_auth2 K L s rep rnd nomem)
            = Schannel_Key_Error NT_STATUS_ACCESS_DENIED"
    by (auto simp: continue_srv_auth2_def srv_auth2_access_denied_def Let_def)
  have stay: "\<not> dcerpc_schannel_auto s \<longrightarrow>
        snd (snd (schannel_key_attempts K L P n s sent)) = sent"
    by (simp add: schannel_key_attempts_no_auto)
  have one: "length (snd (snd (schannel_key_attempts K L P n s sent))) \<le> Suc (length sent)"
    using schannel_key_attempts_sent [of K L P n s sent] by auto
  have two: "length (snd (snd (dcerpc_schannel_key K L fl lp t P))) \<le> 2"
    using dcerpc_schannel_key_sent [of K L fl lp t P] by auto
  show ?thesis
    by (intro conjI only_when never fatal surfaces stay one two)
qed

theorem C2_single_retry_witness:
  "continue_srv_auth2 netlogon_idl sample_lib auto_key_state (auth2_reply nt4_peer 0) 0x2222 False
      = (retried_key_state\<lparr>creds := None, credentials2 := 0\<rparr>, Retry_ServerReqChallenge 0x2222)
   \<and> dcerpc_schannel_auto auto_key_state
   \<and> \<not> dcerpc_schannel_auto retried_key_state
   \<and> snd (continue_srv_auth2 netlogon_idl sample_lib retried_key_state (auth2_reply nt4_peer 0)
            0x3333 False) = Schannel_Key_Error NT_STATUS_ACCESS_DENIED
   \<and> snd (snd (schannel_key_attempts netlogon_idl sample_lib nt4_peer 1 retried_key_state
                 [0x1111, 0x2222])) = [0x1111, 0x2222]
   \<and> snd (dcerpc_schannel_key netlogon_idl sample_lib class_auto lp_default SEC_CHAN_WKSTA
            nt4_peer) = (NT_STATUS_OK, [0x1111, 0x2222])"
  using C2_single_retry [of netlogon_idl sample_lib auto_key_state "auth2_reply nt4_peer 0"
          "0x2222" False "retried_key_state\<lparr>creds := None, credentials2 := 0\<rparr>" "0x2222"
          nt4_peer 0 "[0x1111]" class_auto lp_default SEC_CHAN_WKSTA]
        C2_single_retry [of netlogon_idl sample_lib retried_key_state "auth2_reply nt4_peer 0"
          "0x3333" False auto_key_state "0x3333"
          nt4_peer 1 "[0x1111, 0x2222]" class_auto lp_default SEC_CHAN_WKSTA]
        nt4_key_sent
  by (simp add: netlogon_idl_simps nt4_peer_def auto_key_state_def retried_key_state_def
        srv_auth2_defs Let_def)

text \<open>
  C9. The client challenge of the first attempt is the first output of
  \<open>generate_random_buffer\<close>, and the retry draws a new output, stores it in
  \<open>credentials1\<close> and sends that. The client challenges a handshake sends are the outputs
  of the random generator in their order, so the two challenges of a handshake with a
  retry differ whenever the two outputs differ.
\<close>

theorem C9_fresh_challenge:
  "(snd (continue_bind_auth_none s0 status name_nomem rnd0 nomem0) = Inr c0 \<longrightarrow>
      c0 = rnd0
      \<and> credentials1 (fst (continue_bind_auth_none s0 status name_nomem rnd0 nomem0)) = rnd0)
   \<and> (snd (continue_srv_auth2 K L s rep rnd nomem) = Retry_ServerReqChallenge c \<longrightarrow>
        c = rnd \<and> credentials1 (fst (continue_srv_auth2 K L s rep rnd nomem)) = rnd)
   \<and> (snd (snd (dcerpc_schannel_key K L fl lp t P)) = []
        \<or> snd (snd (dcerpc_schannel_key K L fl lp t P)) = [random_buffer P 0]
        \<or> snd (snd (dcerpc_schannel_key K L fl lp t P)) = [random_buffer P 0, random_buffer P 1])
   \<and> (random_buffer P 0 \<noteq> random_buffer P 1
        \<and> snd (snd (dcerpc_schannel_key K L fl lp t P)) = [c1, c2] \<longrightarrow> c1 \<noteq> c2)"
proof -
  have first: "snd (continue_bind_auth_none s0 status name_nomem rnd0 nomem0) = Inr c0 \<longrightarrow>
      c0 = rnd0
      \<and> credentials1 (fst (continue_bind_auth_none s0 status name_nomem rnd0 nomem0)) = rnd0"
    by (auto simp: continue_bind_auth_none_def Let_def split: if_splits)
  have again: "snd (continue_srv_auth2 K L s rep rnd nomem) = Retry_ServerReqChallenge c \<longrightarrow>
        c = rnd \<and> credentials1 (fst (continue_srv_auth2 K L s rep rnd nomem)) = rnd"
    by (auto simp: continue_srv_auth2_def srv_auth2_access_denied_def Let_def
                   srv_auth2_verify_def split: if_splits option.splits prod.splits)
  have sent: "snd (snd (dcerpc_schannel_key K L fl lp t P)) = []
        \<or> snd (snd (dcerpc_schannel_key K L fl lp t P)) = [random_buffer P 0]
        \<or> snd (snd (dcerpc_schannel_key K L fl lp t P)) = [random_buffer P 0, random_buffer P 1]"
    using dcerpc_schannel_key_sent [of K L fl lp t P] by simp
  have differ: "random_buffer P 0 \<noteq> random_buffer P 1
        \<and> snd (snd (dcerpc_schannel_key K L fl lp t P)) = [c1, c2] \<longrightarrow> c1 \<noteq> c2"
    using sent by auto
  show ?thesis
    by (intro conjI first again sent differ)
qed

theorem C9_fresh_challenge_witness:
  "random_buffer nt4_peer 0 \<noteq> random_buffer nt4_peer 1
   \<and> snd (snd (dcerpc_schannel_key netlogon_idl sample_lib class_auto lp_default SEC_CHAN_WKSTA
                 nt4_peer)) = [0x1111, 0x2222]
   \<and> (0x1111 :: netr_Credential) \<noteq> 0x2222
   \<and> snd (continue_bind_auth_none (auto_key_state\<lparr>credentials1 := 0\<rparr>) NT_STATUS_OK False 0x1111 False) = Inr 0x1111
   \<and> snd (continue_srv_auth2 netlogon_idl sample_lib auto_key_state (auth2_reply nt4_peer 0)
            0x2222 False) = Retry_ServerReqChallenge 0x2222"
  using C9_fresh_challenge [of "auto_key_state\<lparr>credentials1 := 0\<rparr>" NT_STATUS_OK False "0x1111" False "0x1111"
          netlogon_idl sample_lib auto_key_state "auth2_reply nt4_peer 0" "0x2222" False "0x2222"
          class_auto lp_default SEC_CHAN_WKSTA nt4_peer "0x1111" "0x2222"]
        nt4_key_sent
  by (simp add: nt4_peer_def continue_bind_auth_none_def auto_key_state_def netlogon_idl_simps srv_auth2_defs Let_def)

section \<open>The capability queries\<close>

lemma prepare_authenticator_keeps:
  "creds_state (snd (prepare_authenticator L s)) = creds_state s
   \<and> cli_netlogon_creds (snd (prepare_authenticator L s)) = cli_netlogon_creds s
   \<and> save_creds_state (snd (prepare_authenticator L s))
        = fst (snd (netlogon_creds_client_authenticator L (creds_state s)))
   \<and> auth (snd (prepare_authenticator L s))
        = snd (snd (netlogon_creds_client_authenticator L (creds_state s)))"
  by (simp add: prepare_authenticator_def Let_def split: prod.splits)

lemma prepare_authenticator_keeps':
  "prepare_authenticator L s = (st, s') \<Longrightarrow>
     creds_state s' = creds_state s \<and> cli_netlogon_creds s' = cli_netlogon_creds s"
  using prepare_authenticator_keeps [of L s] by simp

text \<open>
  C10. The authenticator of a capability query is computed on \<open>save_creds_state\<close>, a copy
  of the credential state; the state itself and the copy the credentials store holds
  stay as they are. The callbacks of both queries write the advanced copy back only
  after \<open>netlogon_creds_client_verify\<close> has accepted the return authenticator: when the
  call fails or the verification fails, the stored state is the one from before the
  query, and so it is through the LogonControl fallback.
\<close>

theorem C10_authenticator_atomicity:
  "creds_state (snd (prepare_authenticator L s)) = creds_state s
   \<and> cli_netlogon_creds (snd (prepare_authenticator L s)) = cli_netlogon_creds s
   \<and> save_creds_state (snd (prepare_authenticator L s))
        = fst (snd (netlogon_creds_client_authenticator L (creds_state s)))
   \<and> auth (snd (prepare_authenticator L s))
        = snd (snd (netlogon_creds_client_authenticator L (creds_state s)))
   \<and> creds_state (fst (continue_bind_auth L s status name_nomem nomem)) = creds_state s
   \<and> cli_netlogon_creds (fst (continue_bind_auth L s status name_nomem nomem))
        = cli_netlogon_creds s
   \<and> (caps_status rep \<noteq> NT_STATUS_OK
        \<or> fst (netlogon_creds_client_verify L (save_creds_state s)
                  (cred (caps_return_authenticator rep))) \<noteq> NT_STATUS_OK
      \<longrightarrow> creds_state (fst (continue_get_negotiated_capabilities K L s rep control_nomem nomem))
            = creds_state s
          \<and> cli_netlogon_creds
               (fst (continue_get_negotiated_capabilities K L s rep control_nomem nomem))
            = cli_netlogon_creds s
          \<and> creds_state (fst (continue_get_client_capabilities L s rep nomem)) = creds_state s
          \<and> cli_netlogon_creds (fst (continue_get_client_capabilities L s rep nomem))
            = cli_netlogon_creds s)
   \<and> (creds_state (fst (continue_get_negotiated_capabilities K L s rep control_nomem nomem))
          = creds_state s
        \<or> caps_status rep = NT_STATUS_OK
           \<and> fst (netlogon_creds_client_verify L (save_creds_state s)
                     (cred (caps_return_authenticator rep))) = NT_STATUS_OK
           \<and> creds_state (fst (continue_get_negotiated_capabilities K L s rep control_nomem nomem))
               = snd (netlogon_creds_client_verify L (save_creds_state s)
                        (cred (caps_return_authenticator rep))))
   \<and> (creds_state (fst (continue_get_client_capabilities L s rep nomem)) = creds_state s
        \<or> caps_status rep = NT_STATUS_OK
           \<and> fst (netlogon_creds_client_verify L (save_creds_state s)
                     (cred (caps_return_authenticator rep))) = NT_STATUS_OK
           \<and> creds_state (fst (continue_get_client_capabilities L s rep nomem))
               = snd (netlogon_creds_client_verify L (save_creds_state s)
                        (cred (caps_return_authenticator rep))))
   \<and> fst (continue_logon_control_do s nomem) = s
   \<and> fst (continue_logon_control_done s status werr) = s"
proof -
  have bind: "creds_state (fst (continue_bind_auth L s status name_nomem nomem)) = creds_state s
      \<and> cli_netlogon_creds (fst (continue_bind_auth L s status name_nomem nomem))
           = cli_netlogon_creds s"
    by (auto simp: continue_bind_auth_def Let_def split: prod.splits
             dest: prepare_authenticator_keeps')
  have failing: "caps_status rep \<noteq> NT_STATUS_OK
        \<or> fst (netlogon_creds_client_verify L (save_creds_state s)
                  (cred (caps_return_authenticator rep))) \<noteq> NT_STATUS_OK
      \<longrightarrow> creds_state (fst (continue_get_negotiated_capabilities K L s rep control_nomem nomem))
            = creds_state s
          \<and> cli_netlogon_creds
               (fst (continue_get_negotiated_capabilities K L s rep control_nomem nomem))
            = cli_netlogon_creds s
          \<and> creds_state (fst (continue_get_client_capabilities L s rep nomem)) = creds_state s
          \<and> cli_netlogon_creds (fst (continue_get_client_capabilities L s rep nomem))
            = cli_netlogon_creds s"
    by (auto simp: continue_get_negotiated_capabilities_def continue_get_client_capabilities_def
                   continue_logon_control_do_def Let_def split: prod.splits)
  have l1: "creds_state (fst (continue_get_negotiated_capabilities K L s rep control_nomem nomem))
          = creds_state s
        \<or> caps_status rep = NT_STATUS_OK
           \<and> fst (netlogon_creds_client_verify L (save_creds_state s)
                     (cred (caps_return_authenticator rep))) = NT_STATUS_OK
           \<and> creds_state (fst (continue_get_negotiated_capabilities K L s rep control_nomem nomem))
               = snd (netlogon_creds_client_verify L (save_creds_state s)
                        (cred (caps_return_authenticator rep)))"
    by (auto simp: continue_get_negotiated_capabilities_def continue_logon_control_do_def Let_def
             split: prod.splits dest: prepare_authenticator_keeps')
  have l2: "creds_state (fst (continue_get_client_capabilities L s rep nomem)) = creds_state s
        \<or> caps_status rep = NT_STATUS_OK
           \<and> fst (netlogon_creds_client_verify L (save_creds_state s)
                     (cred (caps_return_authenticator rep))) = NT_STATUS_OK
           \<and> creds_state (fst (continue_get_client_capabilities L s rep nomem))
               = snd (netlogon_creds_client_verify L (save_creds_state s)
                        (cred (caps_return_authenticator rep)))"
    by (auto simp: continue_get_client_capabilities_def continue_logon_control_do_def Let_def
             split: prod.splits)
  have lc: "fst (continue_logon_control_do s nomem) = s
      \<and> fst (continue_logon_control_done s status werr) = s"
    by (simp add: continue_logon_control_do_def continue_logon_control_done_def)
  show ?thesis
    using prepare_authenticator_keeps [of L s] bind failing l1 l2 lc by blast
qed


theorem C10_authenticator_atomicity_witness:
  "creds_state (fst (continue_get_negotiated_capabilities netlogon_idl sample_lib
       (sample_auth_state 0x610fffff 0x610fffff)
       \<lparr> caps_status = NT_STATUS_OK, caps_result = NT_STATUS_OK, caps_value = 0x610fffff,
         caps_return_authenticator = \<lparr> cred = 0x99, timestamp = 0 \<rparr> \<rparr> False False))
     = creds_state (sample_auth_state 0x610fffff 0x610fffff)
   \<and> fst (netlogon_creds_client_verify sample_lib
            (save_creds_state (sample_auth_state 0x610fffff 0x610fffff)) 0x99)
       = NT_STATUS_ACCESS_DENIED
   \<and> creds_state (fst (continue_get_negotiated_capabilities netlogon_idl sample_lib
       (sample_auth_state 0x610fffff 0x610fffff)
       \<lparr> caps_status = NT_STATUS_OK, caps_result = NT_STATUS_OK, caps_value = 0x610fffff,
         caps_return_authenticator = \<lparr> cred = 0x12, timestamp = 0 \<rparr> \<rparr> False False))
     = \<lparr> negotiate_flags = 0x610fffff, session_key = 0x5A5A,
         sequence_counter = 1, rolling_credential = 0x12 \<rparr>
   \<and> creds_state (fst (continue_get_client_capabilities sample_lib
       (sample_auth_state 0x610fffff 0x610fffff)
       \<lparr> caps_status = NT_STATUS_RPC_BAD_STUB_DATA, caps_result = NT_STATUS_OK, caps_value = 0,
         caps_return_authenticator = zero_Authenticator \<rparr> False))
     = creds_state (sample_auth_state 0x610fffff 0x610fffff)"
  using C10_authenticator_atomicity [of sample_lib "sample_auth_state 0x610fffff 0x610fffff"
          NT_STATUS_OK False False
          "\<lparr> caps_status = NT_STATUS_OK, caps_result = NT_STATUS_OK, caps_value = 0x610fffff,
             caps_return_authenticator = \<lparr> cred = 0x99, timestamp = 0 \<rparr> \<rparr>"
          netlogon_idl False WERR_NOT_SUPPORTED]
        C10_authenticator_atomicity [of sample_lib "sample_auth_state 0x610fffff 0x610fffff"
          NT_STATUS_OK False False
          "\<lparr> caps_status = NT_STATUS_RPC_BAD_STUB_DATA, caps_result = NT_STATUS_OK, caps_value = 0,
             caps_return_authenticator = zero_Authenticator \<rparr>"
          netlogon_idl False WERR_NOT_SUPPORTED]
  by (simp add: sample_lib_def sample_auth_state_def continue_get_negotiated_capabilities_def
        prepare_authenticator_def zero_Authenticator_def netlogon_idl_simps Let_def)

text \<open>
  C6. At the query of level 2, \<open>NT_STATUS_RPC_BAD_STUB_DATA\<close> is turned into
  \<open>NT_STATUS_RPC_ENUM_VALUE_OUT_OF_RANGE\<close>: for both codes the callback does what
  \<open>continue_logon_control_do\<close> does, the fallback the query of level 1 takes for a legacy
  peer, and the LogonControl reply then decides the handshake. Every other failing status
  ends the handshake with that status, and LogonControl is requested for these two codes
  only.
\<close>

theorem C6_bad_stub_data_quirk:
  "(caps_status rep = NT_STATUS_RPC_BAD_STUB_DATA
      \<or> caps_status rep = NT_STATUS_RPC_ENUM_VALUE_OUT_OF_RANGE
     \<longrightarrow> continue_get_client_capabilities L s rep nomem = continue_logon_control_do s nomem)
   \<and> continue_get_client_capabilities L s (rep\<lparr>caps_status := NT_STATUS_RPC_BAD_STUB_DATA\<rparr>) nomem
       = continue_get_client_capabilities L s
           (rep\<lparr>caps_status := NT_STATUS_RPC_ENUM_VALUE_OUT_OF_RANGE\<rparr>) nomem
   \<and> (caps_status rep \<noteq> NT_STATUS_RPC_BAD_STUB_DATA
        \<and> caps_status rep \<noteq> NT_STATUS_RPC_ENUM_VALUE_OUT_OF_RANGE
        \<and> caps_status rep \<noteq> NT_STATUS_OK
     \<longrightarrow> continue_get_client_capabilities L s rep nomem = (s, Auth_Error (caps_status rep)))
   \<and> (snd (continue_get_client_capabilities L s rep nomem) = Send_LogonControl
     \<longrightarrow> caps_status rep = NT_STATUS_RPC_BAD_STUB_DATA
         \<or> caps_status rep = NT_STATUS_RPC_ENUM_VALUE_OUT_OF_RANGE)
   \<and> (caps_status rep1 = NT_STATUS_RPC_PROCNUM_OUT_OF_RANGE
        \<and> negotiate_flags (creds_state s) AND NETLOGON_NEG_SUPPORTS_AES K = 0
        \<and> negotiate_flags (creds_state s) AND NETLOGON_NEG_STRONG_KEYS K = 0
     \<longrightarrow> continue_get_negotiated_capabilities K L s rep1 nomem nomem2
           = continue_logon_control_do s nomem)
   \<and> (caps_status (capabilities_reply P 2) = NT_STATUS_RPC_BAD_STUB_DATA
        \<or> caps_status (capabilities_reply P 2) = NT_STATUS_RPC_ENUM_VALUE_OUT_OF_RANGE
     \<longrightarrow> logon_control_stage P (caps2_stage L P (s, Send_LogonGetCapabilities 2 a))
           = (if talloc_fails P Alloc_LogonControl then (s, Auth_Error NT_STATUS_NO_MEMORY)
              else continue_logon_control_done s (logon_control_status P) (logon_control_werr P)))"
proof -
  have quirk: "caps_status rep = NT_STATUS_RPC_BAD_STUB_DATA
      \<or> caps_status rep = NT_STATUS_RPC_ENUM_VALUE_OUT_OF_RANGE
     \<longrightarrow> continue_get_client_capabilities L s rep nomem = continue_logon_control_do s nomem"
    for rep :: getcaps_reply and nomem
    by (auto simp: continue_get_client_capabilities_def Let_def)
  have same: "continue_get_client_capabilities L s (rep\<lparr>caps_status := NT_STATUS_RPC_BAD_STUB_DATA\<rparr>) nomem
       = continue_get_client_capabilities L s
           (rep\<lparr>caps_status := NT_STATUS_RPC_ENUM_VALUE_OUT_OF_RANGE\<rparr>) nomem"
    by (simp add: quirk)
  have other: "caps_status rep \<noteq> NT_STATUS_RPC_BAD_STUB_DATA
        \<and> caps_status rep \<noteq> NT_STATUS_RPC_ENUM_VALUE_OUT_OF_RANGE
        \<and> caps_status rep \<noteq> NT_STATUS_OK
     \<longrightarrow> continue_get_client_capabilities L s rep nomem = (s, Auth_Error (caps_status rep))"
    by (auto simp: continue_get_client_capabilities_def Let_def)
  have only: "snd (continue_get_client_capabilities L s rep nomem) = Send_LogonControl
     \<longrightarrow> caps_status rep = NT_STATUS_RPC_BAD_STUB_DATA
         \<or> caps_status rep = NT_STATUS_RPC_ENUM_VALUE_OUT_OF_RANGE"
    by (auto simp: continue_get_client_capabilities_def Let_def split: prod.splits if_splits)
  have level1: "caps_status rep1 = NT_STATUS_RPC_PROCNUM_OUT_OF_RANGE
        \<and> negotiate_flags (creds_state s) AND NETLOGON_NEG_SUPPORTS_AES K = 0
        \<and> negotiate_flags (creds_state s) AND NETLOGON_NEG_STRONG_KEYS K = 0
     \<longrightarrow> continue_get_negotiated_capabilities K L s rep1 nomem nomem2
           = continue_logon_control_do s nomem"
    by (simp add: continue_get_negotiated_capabilities_def)
  have run: "caps_status (capabilities_reply P 2) = NT_STATUS_RPC_BAD_STUB_DATA
        \<or> caps_status (capabilities_reply P 2) = NT_STATUS_RPC_ENUM_VALUE_OUT_OF_RANGE
     \<longrightarrow> logon_control_stage P (caps2_stage L P (s, Send_LogonGetCapabilities 2 a))
           = (if talloc_fails P Alloc_LogonControl then (s, Auth_Error NT_STATUS_NO_MEMORY)
              else continue_logon_control_done s (logon_control_status P) (logon_control_werr P))"
    using quirk [of "capabilities_reply P 2" "talloc_fails P Alloc_LogonControl"]
    by (auto simp: caps2_stage_def logon_control_stage_def continue_logon_control_do_def)
  show ?thesis
    by (intro conjI quirk same other only level1 run)
qed


theorem C6_bad_stub_data_quirk_witness:
  "caps_status (capabilities_reply unpatched_samba_peer 2) = NT_STATUS_RPC_BAD_STUB_DATA
   \<and> continue_get_client_capabilities sample_lib (sample_auth_state 0x610fffff 0x610fffff)
         (capabilities_reply unpatched_samba_peer 2) False
       = (sample_auth_state 0x610fffff 0x610fffff, Send_LogonControl)
   \<and> continue_get_client_capabilities sample_lib (sample_auth_state 0x610fffff 0x400701ff)
         ((capabilities_reply unpatched_samba_peer 2)\<lparr>caps_status := NT_STATUS_OTHER 5\<rparr>) False
       = (sample_auth_state 0x610fffff 0x400701ff, Auth_Error (NT_STATUS_OTHER 5))
   \<and> continue_get_negotiated_capabilities netlogon_idl sample_lib
         (sample_auth_state 0x610fffff 0x400701ff) (capabilities_reply nt4_peer 1) False False
       = (sample_auth_state 0x610fffff 0x400701ff, Send_LogonControl)
   \<and> logon_control_stage unpatched_samba_peer
         (caps2_stage sample_lib unpatched_samba_peer
            (sample_auth_state 0x610fffff 0x610fffff,
             Send_LogonGetCapabilities 2 \<lparr> cred = 0x11, timestamp = 1 \<rparr>))
       = (sample_auth_state 0x610fffff 0x610fffff, Auth_Done)"
  using C6_bad_stub_data_quirk [of "capabilities_reply unpatched_samba_peer 2" sample_lib
          "sample_auth_state 0x610fffff 0x610fffff" False "capabilities_reply nt4_peer 1"
          netlogon_idl False unpatched_samba_peer "\<lparr> cred = 0x11, timestamp = 1 \<rparr>"]
        C6_bad_stub_data_quirk [of
          "(capabilities_reply unpatched_samba_peer 2)\<lparr>caps_status := NT_STATUS_OTHER 5\<rparr>" sample_lib
          "sample_auth_state 0x610fffff 0x400701ff" False "capabilities_reply nt4_peer 1"
          netlogon_idl False unpatched_samba_peer "\<lparr> cred = 0x11, timestamp = 1 \<rparr>"]
  by (simp add: unpatched_samba_peer_def nt4_peer_def sample_auth_state_def netlogon_idl_simps
        continue_logon_control_do_def continue_logon_control_done_def
        continue_get_client_capabilities_def Let_def)

section \<open>The flags dcerpc_schannel_key_send computes\<close>

lemma word_disjoint_bit:
  "a AND b = 0 \<Longrightarrow> bit b n \<Longrightarrow> \<not> bit a n" for a b :: u32
proof
  assume z: "a AND b = 0" and b: "bit b n" and a: "bit a n"
  have "\<not> bit (a AND b) n" unfolding z by simp
  with a b show False by (simp add: bit_and_iff)
qed

text \<open>
  C7, as the specification states it, fails for a class that does not read the policy.
  With none of the three class bits set and weak crypto allowed, a policy that requires
  strong keys and rejects MD5 servers leaves the requirement at the authenticated-RPC bit
  alone: \<open>lpcfg_require_strong_key\<close> and \<open>lpcfg_reject_md5_servers\<close> are read in the
  branch of \<open>DCERPC_SCHANNEL_AUTO\<close> only (lines 407 to 413).
\<close>

theorem C7_required_flags_counterexample:
  "lpcfg_require_strong_key lp_strong_and_reject
   \<and> lpcfg_reject_md5_servers lp_strong_and_reject
   \<and> required_negotiate_flags
        (dcerpc_schannel_key_send netlogon_idl class_legacy lp_strong_and_reject SEC_CHAN_WKSTA)
     = 0x40000000
   \<and> required_negotiate_flags
        (dcerpc_schannel_key_send netlogon_idl class_legacy lp_strong_and_reject SEC_CHAN_WKSTA)
       AND (NETLOGON_NEG_ARCFOUR netlogon_idl OR NETLOGON_NEG_STRONG_KEYS netlogon_idl)
     = 0
   \<and> required_negotiate_flags
        (dcerpc_schannel_key_send netlogon_idl class_legacy lp_strong_and_reject SEC_CHAN_WKSTA)
       AND (NETLOGON_NEG_SUPPORTS_AES netlogon_idl OR NETLOGON_NEG_PASSWORD_SET2 netlogon_idl)
     = 0"
  by (simp add: netlogon_idl_simps key_send_defs class_legacy_def lp_strong_and_reject_def
        Let_def)

text \<open>
  C7, amended. For every channel class and policy, let \<open>require_strong_key\<close> and
  \<open>reject_md5_servers\<close> be the two local switches as the function has set them: MD5 servers
  are rejected when weak crypto is disallowed, when the automatic class reads it so from
  the policy, or when a class without the automatic bit has the AES bit; strong keys are
  required when MD5 servers are rejected, when the automatic class reads it so from the
  policy, or when a class without the automatic bit has the 128 bit. Rejecting MD5
  servers implies requiring strong keys; requiring strong keys puts the RC4 and
  strong-keys bits into the requirement, and they are the final requirement (with the
  authenticated-RPC bit) when MD5 servers are not rejected; rejecting MD5 servers puts
  the AES and password-set2 bits into the final requirement and takes the RC4 and
  strong-keys bits out of it; with neither switch the requirement is the
  authenticated-RPC bit. For the automatic class the two switches of the policy have
  these effects themselves. The masks are assumed to be what they are in Samba in this
  respect: the AES bit is not empty and shares no bit with the authenticated-RPC, RC4 and
  strong-keys masks, nor does password-set2 with the last two.
\<close>

theorem C7_required_flags:
  assumes aes: "NETLOGON_NEG_SUPPORTS_AES K \<noteq> 0"
    and d1: "(NETLOGON_NEG_AUTHENTICATED_RPC K OR NETLOGON_NEG_ARCFOUR K
                OR NETLOGON_NEG_STRONG_KEYS K) AND NETLOGON_NEG_SUPPORTS_AES K = 0"
    and d2: "(NETLOGON_NEG_ARCFOUR K OR NETLOGON_NEG_STRONG_KEYS K)
                AND NETLOGON_NEG_PASSWORD_SET2 K = 0"
  shows
    "key_send_reject_md5_servers fl lp
       = (lpcfg_weak_crypto lp = SAMBA_WEAK_CRYPTO_DISALLOWED
          \<or> (if DCERPC_SCHANNEL_AUTO fl then lpcfg_reject_md5_servers lp
              else DCERPC_SCHANNEL_AES fl))
     \<and> key_send_require_strong_key fl lp
       = (key_send_reject_md5_servers fl lp
          \<or> (if DCERPC_SCHANNEL_AUTO fl then lpcfg_require_strong_key lp
              else DCERPC_SCHANNEL_128 fl))
     \<and> (key_send_reject_md5_servers fl lp \<longrightarrow> key_send_require_strong_key fl lp)
     \<and> (key_send_require_strong_key fl lp \<longrightarrow>
          key_send_required_policy K fl lp
              AND (NETLOGON_NEG_ARCFOUR K OR NETLOGON_NEG_STRONG_KEYS K)
            = NETLOGON_NEG_ARCFOUR K OR NETLOGON_NEG_STRONG_KEYS K)
     \<and> (key_send_require_strong_key fl lp \<and> \<not> key_send_reject_md5_servers fl lp \<longrightarrow>
          required_negotiate_flags (dcerpc_schannel_key_send K fl lp t)
            = NETLOGON_NEG_AUTHENTICATED_RPC K OR NETLOGON_NEG_ARCFOUR K
                OR NETLOGON_NEG_STRONG_KEYS K)
     \<and> (key_send_reject_md5_servers fl lp \<longrightarrow>
          required_negotiate_flags (dcerpc_schannel_key_send K fl lp t)
              AND (NETLOGON_NEG_SUPPORTS_AES K OR NETLOGON_NEG_PASSWORD_SET2 K)
            = NETLOGON_NEG_SUPPORTS_AES K OR NETLOGON_NEG_PASSWORD_SET2 K
          \<and> required_negotiate_flags (dcerpc_schannel_key_send K fl lp t)
              AND (NETLOGON_NEG_ARCFOUR K OR NETLOGON_NEG_STRONG_KEYS K) = 0)
     \<and> (\<not> key_send_require_strong_key fl lp \<longrightarrow>
          required_negotiate_flags (dcerpc_schannel_key_send K fl lp t)
            = NETLOGON_NEG_AUTHENTICATED_RPC K)
     \<and> (DCERPC_SCHANNEL_AUTO fl \<and> lpcfg_require_strong_key lp \<longrightarrow>
          key_send_required_policy K fl lp
              AND (NETLOGON_NEG_ARCFOUR K OR NETLOGON_NEG_STRONG_KEYS K)
            = NETLOGON_NEG_ARCFOUR K OR NETLOGON_NEG_STRONG_KEYS K)
     \<and> (DCERPC_SCHANNEL_AUTO fl \<and> lpcfg_reject_md5_servers lp \<longrightarrow>
          required_negotiate_flags (dcerpc_schannel_key_send K fl lp t)
              AND (NETLOGON_NEG_SUPPORTS_AES K OR NETLOGON_NEG_PASSWORD_SET2 K)
            = NETLOGON_NEG_SUPPORTS_AES K OR NETLOGON_NEG_PASSWORD_SET2 K
          \<and> required_negotiate_flags (dcerpc_schannel_key_send K fl lp t)
              AND (NETLOGON_NEG_ARCFOUR K OR NETLOGON_NEG_STRONG_KEYS K) = 0)"
proof -
  have req: "required_negotiate_flags (dcerpc_schannel_key_send K fl lp t)
      = key_send_required_final K (key_send_required_policy K fl lp)"
    by (simp add: dcerpc_schannel_key_send_def Let_def)
  have rj: "key_send_reject_md5_servers fl lp
       = (lpcfg_weak_crypto lp = SAMBA_WEAK_CRYPTO_DISALLOWED
          \<or> (if DCERPC_SCHANNEL_AUTO fl then lpcfg_reject_md5_servers lp
              else DCERPC_SCHANNEL_AES fl))"
    by (simp add: key_send_reject_md5_servers_def)
  have st: "key_send_require_strong_key fl lp
       = (key_send_reject_md5_servers fl lp
          \<or> (if DCERPC_SCHANNEL_AUTO fl then lpcfg_require_strong_key lp
              else DCERPC_SCHANNEL_128 fl))"
    by (simp add: key_send_require_strong_key_def)
  have strong: "key_send_reject_md5_servers fl lp \<longrightarrow> key_send_require_strong_key fl lp"
    by (simp add: key_send_require_strong_key_def)
  have pol: "key_send_require_strong_key fl lp \<longrightarrow>
      key_send_required_policy K fl lp
          AND (NETLOGON_NEG_ARCFOUR K OR NETLOGON_NEG_STRONG_KEYS K)
        = NETLOGON_NEG_ARCFOUR K OR NETLOGON_NEG_STRONG_KEYS K"
    by (auto simp add: key_send_required_policy_def Let_def bit_eq_iff bit_simps)
  have d0: "NETLOGON_NEG_AUTHENTICATED_RPC K AND NETLOGON_NEG_SUPPORTS_AES K = 0"
  proof (rule bit_eqI)
    fix n
    show "bit (NETLOGON_NEG_AUTHENTICATED_RPC K AND NETLOGON_NEG_SUPPORTS_AES K) n
            = bit (0 :: u32) n"
      using word_disjoint_bit [OF d1, of n] by (auto simp add: bit_and_iff bit_or_iff)
  qed
  have only_strong: "key_send_require_strong_key fl lp \<and> \<not> key_send_reject_md5_servers fl lp
      \<longrightarrow> key_send_required_final K (key_send_required_policy K fl lp)
          = NETLOGON_NEG_AUTHENTICATED_RPC K OR NETLOGON_NEG_ARCFOUR K
              OR NETLOGON_NEG_STRONG_KEYS K"
    using d1 by (simp add: key_send_required_policy_def key_send_required_final_def Let_def
                      or.assoc)
  have none: "\<not> key_send_require_strong_key fl lp
      \<longrightarrow> key_send_required_final K (key_send_required_policy K fl lp)
          = NETLOGON_NEG_AUTHENTICATED_RPC K"
    using d0 strong
    by (auto simp add: key_send_required_policy_def key_send_required_final_def Let_def)
  have has_aes: "(r OR NETLOGON_NEG_PASSWORD_SET2 K OR NETLOGON_NEG_SUPPORTS_AES K)
      AND NETLOGON_NEG_SUPPORTS_AES K \<noteq> 0" for r
  proof -
    have "(r OR NETLOGON_NEG_PASSWORD_SET2 K OR NETLOGON_NEG_SUPPORTS_AES K)
        AND NETLOGON_NEG_SUPPORTS_AES K = NETLOGON_NEG_SUPPORTS_AES K"
      by (auto simp add: bit_eq_iff bit_simps)
    then show ?thesis using aes by simp
  qed
  have a1: "bit (NETLOGON_NEG_SUPPORTS_AES K) n \<Longrightarrow>
      \<not> bit (NETLOGON_NEG_ARCFOUR K) n \<and> \<not> bit (NETLOGON_NEG_STRONG_KEYS K) n" for n
    using word_disjoint_bit [OF d1, of n] by (simp add: bit_or_iff)
  have a2: "bit (NETLOGON_NEG_PASSWORD_SET2 K) n \<Longrightarrow>
      \<not> bit (NETLOGON_NEG_ARCFOUR K) n \<and> \<not> bit (NETLOGON_NEG_STRONG_KEYS K) n" for n
    using word_disjoint_bit [OF d2, of n] by (simp add: bit_or_iff)
  have reject: "key_send_reject_md5_servers fl lp \<longrightarrow>
      key_send_required_final K (key_send_required_policy K fl lp)
          AND (NETLOGON_NEG_SUPPORTS_AES K OR NETLOGON_NEG_PASSWORD_SET2 K)
        = NETLOGON_NEG_SUPPORTS_AES K OR NETLOGON_NEG_PASSWORD_SET2 K
      \<and> key_send_required_final K (key_send_required_policy K fl lp)
          AND (NETLOGON_NEG_ARCFOUR K OR NETLOGON_NEG_STRONG_KEYS K) = 0"
    using has_aes a1 a2
    by (auto simp add: key_send_required_policy_def key_send_required_final_def Let_def
                       bit_eq_iff bit_simps)
  have rest: "(key_send_reject_md5_servers fl lp \<longrightarrow> key_send_require_strong_key fl lp)
     \<and> (key_send_require_strong_key fl lp \<longrightarrow>
          key_send_required_policy K fl lp
              AND (NETLOGON_NEG_ARCFOUR K OR NETLOGON_NEG_STRONG_KEYS K)
            = NETLOGON_NEG_ARCFOUR K OR NETLOGON_NEG_STRONG_KEYS K)
     \<and> (key_send_require_strong_key fl lp \<and> \<not> key_send_reject_md5_servers fl lp \<longrightarrow>
          required_negotiate_flags (dcerpc_schannel_key_send K fl lp t)
            = NETLOGON_NEG_AUTHENTICATED_RPC K OR NETLOGON_NEG_ARCFOUR K
                OR NETLOGON_NEG_STRONG_KEYS K)
     \<and> (key_send_reject_md5_servers fl lp \<longrightarrow>
          required_negotiate_flags (dcerpc_schannel_key_send K fl lp t)
              AND (NETLOGON_NEG_SUPPORTS_AES K OR NETLOGON_NEG_PASSWORD_SET2 K)
            = NETLOGON_NEG_SUPPORTS_AES K OR NETLOGON_NEG_PASSWORD_SET2 K
          \<and> required_negotiate_flags (dcerpc_schannel_key_send K fl lp t)
              AND (NETLOGON_NEG_ARCFOUR K OR NETLOGON_NEG_STRONG_KEYS K) = 0)
     \<and> (\<not> key_send_require_strong_key fl lp \<longrightarrow>
          required_negotiate_flags (dcerpc_schannel_key_send K fl lp t)
            = NETLOGON_NEG_AUTHENTICATED_RPC K)"
    using strong pol only_strong reject none unfolding req by blast
  have auto_strong: "DCERPC_SCHANNEL_AUTO fl \<and> lpcfg_require_strong_key lp
      \<longrightarrow> key_send_require_strong_key fl lp"
    unfolding st by simp
  have auto_reject: "DCERPC_SCHANNEL_AUTO fl \<and> lpcfg_reject_md5_servers lp
      \<longrightarrow> key_send_reject_md5_servers fl lp"
    unfolding rj by simp
  show ?thesis
    by (intro conjI rj st) (use rest auto_strong auto_reject in blast)+
qed

theorem C7_required_flags_witness:
  "NETLOGON_NEG_SUPPORTS_AES netlogon_idl \<noteq> 0
   \<and> DCERPC_SCHANNEL_AUTO class_auto
   \<and> lpcfg_reject_md5_servers lp_reject_md5
   \<and> lpcfg_require_strong_key (lp_default\<lparr>lpcfg_require_strong_key := True\<rparr>)
   \<and> key_send_reject_md5_servers class_auto lp_reject_md5
   \<and> key_send_require_strong_key class_auto lp_reject_md5
   \<and> required_negotiate_flags
        (dcerpc_schannel_key_send netlogon_idl class_auto lp_reject_md5 SEC_CHAN_WKSTA)
       = 0x41020000
   \<and> key_send_require_strong_key class_auto
        (lp_default\<lparr>lpcfg_require_strong_key := True\<rparr>)
   \<and> \<not> key_send_reject_md5_servers class_auto
        (lp_default\<lparr>lpcfg_require_strong_key := True\<rparr>)
   \<and> required_negotiate_flags
        (dcerpc_schannel_key_send netlogon_idl class_auto
           (lp_default\<lparr>lpcfg_require_strong_key := True\<rparr>) SEC_CHAN_WKSTA)
       = 0x40004004
   \<and> \<not> key_send_require_strong_key class_auto lp_default
   \<and> required_negotiate_flags
        (dcerpc_schannel_key_send netlogon_idl class_auto lp_default SEC_CHAN_WKSTA)
       = 0x40000000"
  using C7_required_flags [of netlogon_idl class_auto lp_reject_md5 SEC_CHAN_WKSTA]
        C7_required_flags [of netlogon_idl class_auto
          "lp_default\<lparr>lpcfg_require_strong_key := True\<rparr>" SEC_CHAN_WKSTA]
        C7_required_flags [of netlogon_idl class_auto lp_default SEC_CHAN_WKSTA]
  by (simp add: netlogon_idl_simps key_send_defs class_auto_def lp_reject_md5_def
        lp_default_def Let_def)

text \<open>
  C8, as the specification states it, fails for the legacy class when weak crypto is disallowed:
  the request then holds the strong-keys bit, which is neither in the final requirement
  (AES took it out) nor among the candidate bits of the class.
\<close>

theorem C8_requested_flags_counterexample:
  "requested_negotiate_flags
      (dcerpc_schannel_key_send netlogon_idl class_legacy lp_no_weak_crypto SEC_CHAN_WKSTA)
     = 0x410741ff
   \<and> required_negotiate_flags
        (dcerpc_schannel_key_send netlogon_idl class_legacy lp_no_weak_crypto SEC_CHAN_WKSTA)
       OR key_send_class_flags netlogon_idl class_legacy
       OR 0
     = 0x410701ff
   \<and> requested_negotiate_flags
        (dcerpc_schannel_key_send netlogon_idl class_legacy lp_no_weak_crypto SEC_CHAN_WKSTA)
     \<noteq> required_negotiate_flags
          (dcerpc_schannel_key_send netlogon_idl class_legacy lp_no_weak_crypto SEC_CHAN_WKSTA)
        OR key_send_class_flags netlogon_idl class_legacy
        OR 0"
  by (simp add: netlogon_idl_simps key_send_defs class_legacy_def lp_no_weak_crypto_def Let_def)

text \<open>
  C8, amended. For every channel class and policy input the requested flags are the union
  of the requirement as it stands before AES takes the RC4 and strong-keys bits out of
  it, the candidate bits of the class and the RODC pass-through bit of a read-only
  replica; the requested flags cover the final requirement and are the local flags the
  handshake starts with. They are the union of the final requirement, the candidate bits
  and the channel bit whenever the requirement holds no AES bit or the candidate bits
  hold the RC4 and strong-keys bits.
\<close>

theorem C8_requested_flags:
  "requested_negotiate_flags (dcerpc_schannel_key_send K fl lp t)
     = key_send_required_policy K fl lp
       OR key_send_class_flags K fl
       OR (if t = SEC_CHAN_RODC then NETLOGON_NEG_RODC_PASSTHROUGH K else 0)
   \<and> required_negotiate_flags (dcerpc_schannel_key_send K fl lp t)
       = key_send_required_final K (key_send_required_policy K fl lp)
   \<and> required_negotiate_flags (dcerpc_schannel_key_send K fl lp t)
       AND requested_negotiate_flags (dcerpc_schannel_key_send K fl lp t)
     = required_negotiate_flags (dcerpc_schannel_key_send K fl lp t)
   \<and> local_negotiate_flags (dcerpc_schannel_key_send K fl lp t)
     = requested_negotiate_flags (dcerpc_schannel_key_send K fl lp t)
   \<and> (key_send_required_policy K fl lp AND NETLOGON_NEG_SUPPORTS_AES K = 0
        \<or> key_send_class_flags K fl
              AND (NETLOGON_NEG_ARCFOUR K OR NETLOGON_NEG_STRONG_KEYS K)
            = NETLOGON_NEG_ARCFOUR K OR NETLOGON_NEG_STRONG_KEYS K
      \<longrightarrow> requested_negotiate_flags (dcerpc_schannel_key_send K fl lp t)
          = required_negotiate_flags (dcerpc_schannel_key_send K fl lp t)
            OR key_send_class_flags K fl
            OR (if t = SEC_CHAN_RODC then NETLOGON_NEG_RODC_PASSTHROUGH K else 0))"
proof -
  have requested: "requested_negotiate_flags (dcerpc_schannel_key_send K fl lp t)
     = key_send_required_policy K fl lp
       OR key_send_class_flags K fl
       OR (if t = SEC_CHAN_RODC then NETLOGON_NEG_RODC_PASSTHROUGH K else 0)"
    by (simp add: dcerpc_schannel_key_send_def Let_def or.commute or.left_commute)
  have required: "required_negotiate_flags (dcerpc_schannel_key_send K fl lp t)
       = key_send_required_final K (key_send_required_policy K fl lp)"
    by (simp add: dcerpc_schannel_key_send_def Let_def)
  have local: "local_negotiate_flags (dcerpc_schannel_key_send K fl lp t)
     = requested_negotiate_flags (dcerpc_schannel_key_send K fl lp t)"
    by (simp add: dcerpc_schannel_key_send_def Let_def)
  have superset: "key_send_required_final K r AND (r OR c OR x) = key_send_required_final K r"
    for r c x
    by (auto simp add: key_send_required_final_def bit_eq_iff bit_simps)
  have union: "key_send_required_policy K fl lp AND NETLOGON_NEG_SUPPORTS_AES K = 0
        \<or> key_send_class_flags K fl
              AND (NETLOGON_NEG_ARCFOUR K OR NETLOGON_NEG_STRONG_KEYS K)
            = NETLOGON_NEG_ARCFOUR K OR NETLOGON_NEG_STRONG_KEYS K
      \<longrightarrow> key_send_required_policy K fl lp OR key_send_class_flags K fl OR x
          = key_send_required_final K (key_send_required_policy K fl lp)
            OR key_send_class_flags K fl OR x" for x
  proof (intro impI, elim disjE)
    assume "key_send_required_policy K fl lp AND NETLOGON_NEG_SUPPORTS_AES K = 0"
    then show "key_send_required_policy K fl lp OR key_send_class_flags K fl OR x
          = key_send_required_final K (key_send_required_policy K fl lp)
            OR key_send_class_flags K fl OR x"
      by (simp add: key_send_required_final_def)
  next
    assume c: "key_send_class_flags K fl
              AND (NETLOGON_NEG_ARCFOUR K OR NETLOGON_NEG_STRONG_KEYS K)
            = NETLOGON_NEG_ARCFOUR K OR NETLOGON_NEG_STRONG_KEYS K"
    have cb: "bit (NETLOGON_NEG_ARCFOUR K) n \<or> bit (NETLOGON_NEG_STRONG_KEYS K) n
        \<Longrightarrow> bit (key_send_class_flags K fl) n" for n
    proof -
      assume b: "bit (NETLOGON_NEG_ARCFOUR K) n \<or> bit (NETLOGON_NEG_STRONG_KEYS K) n"
      have "bit (key_send_class_flags K fl
              AND (NETLOGON_NEG_ARCFOUR K OR NETLOGON_NEG_STRONG_KEYS K)) n
          = bit (NETLOGON_NEG_ARCFOUR K OR NETLOGON_NEG_STRONG_KEYS K) n"
        unfolding c by (rule refl)
      with b show ?thesis by (simp add: bit_and_iff bit_or_iff)
    qed
    show "key_send_required_policy K fl lp OR key_send_class_flags K fl OR x
          = key_send_required_final K (key_send_required_policy K fl lp)
            OR key_send_class_flags K fl OR x"
      using cb by (auto simp add: key_send_required_final_def bit_eq_iff bit_simps)
  qed
  show ?thesis
    unfolding required local
    using union [of "if t = SEC_CHAN_RODC then NETLOGON_NEG_RODC_PASSTHROUGH K else 0"]
          superset
    by (simp add: requested)
qed

theorem C8_requested_flags_witness:
  "key_send_class_flags netlogon_idl class_auto
       AND (NETLOGON_NEG_ARCFOUR netlogon_idl OR NETLOGON_NEG_STRONG_KEYS netlogon_idl)
     = NETLOGON_NEG_ARCFOUR netlogon_idl OR NETLOGON_NEG_STRONG_KEYS netlogon_idl
   \<and> requested_negotiate_flags
        (dcerpc_schannel_key_send netlogon_idl class_auto lp_reject_md5 SEC_CHAN_RODC)
     = 0x612fffff
   \<and> required_negotiate_flags
        (dcerpc_schannel_key_send netlogon_idl class_auto lp_reject_md5 SEC_CHAN_RODC)
     = 0x41020000
   \<and> key_send_class_flags netlogon_idl class_auto = 0x610fffff"
  using C8_requested_flags [of netlogon_idl class_auto lp_reject_md5 SEC_CHAN_RODC]
  by (simp add: netlogon_idl_simps key_send_defs class_auto_def lp_reject_md5_def Let_def)

section \<open>The capability cross-checks and the legacy fallback\<close>

lemmas auth_schannel_defs =
  auth_schannel_verify_def continue_bind_auth_def prepare_authenticator_def
  caps1_stage_def caps2_stage_def logon_control_stage_def
  continue_get_negotiated_capabilities_def continue_get_client_capabilities_def
  continue_logon_control_do_def continue_logon_control_done_def

lemma old_samba_key:
  "dcerpc_schannel_key netlogon_idl sample_lib class_legacy lp_default SEC_CHAN_WKSTA
       old_samba_peer
     = (legacy_key_state
          \<lparr>creds := Some \<lparr> negotiate_flags = 0x400701ff, session_key = 0x5A5A,
                           sequence_counter = 0, rolling_credential = 0x1E1F \<rparr>,
           remote_negotiate_flags := 0x400701ff, credentials2 := 0x0F0F,
           credentials3 := 0x1E1F\<rparr>,
        NT_STATUS_OK, [0x1111])"
proof -
  have a: "dcerpc_schannel_key_send netlogon_idl class_legacy lp_default SEC_CHAN_WKSTA
             = legacy_key_state\<lparr>credentials1 := 0\<rparr>"
    by (simp add: key_send_defs netlogon_idl_simps class_legacy_def lp_default_def
          legacy_key_state_def Let_def)
  have b: "dcerpc_schannel_key netlogon_idl sample_lib class_legacy lp_default SEC_CHAN_WKSTA
               old_samba_peer
             = schannel_key_attempts netlogon_idl sample_lib old_samba_peer 0
                 legacy_key_state [0x1111]"
    unfolding dcerpc_schannel_key_def a
    by (simp add: continue_epm_map_binding_def continue_secondary_connection_def
          continue_bind_auth_none_def old_samba_peer_def legacy_key_state_def Let_def)
  have c: "schannel_key_attempt netlogon_idl sample_lib old_samba_peer 0 legacy_key_state
      = (legacy_key_state
           \<lparr>creds := Some \<lparr> negotiate_flags = 0x400701ff, session_key = 0x5A5A,
                            sequence_counter = 0, rolling_credential = 0x1E1F \<rparr>,
            remote_negotiate_flags := 0x400701ff, credentials2 := 0x0F0F,
            credentials3 := 0x1E1F\<rparr>,
         Inl NT_STATUS_OK)"
    by (simp add: schannel_key_attempt_def continue_srv_challenge_def srv_auth2_defs
          old_samba_peer_def sample_lib_def legacy_key_state_def netlogon_idl_simps Let_def)
  show ?thesis
    unfolding b by (subst schannel_key_attempts.simps) (simp add: c)
qed

lemma old_samba_run:
  "dcerpc_bind_auth_schannel netlogon_idl sample_lib class_legacy lp_default SEC_CHAN_WKSTA
       True old_samba_peer
     = (Some \<lparr> auth_requested_negotiate_flags = 0x400701ff,
               table_is_netlogon = True,
               creds_state = \<lparr> negotiate_flags = 0x400701ff, session_key = 0x5A5A,
                               sequence_counter = 0, rolling_credential = 0x1E1F \<rparr>,
               cli_netlogon_creds = Some \<lparr> negotiate_flags = 0x400701ff, session_key = 0x5A5A,
                               sequence_counter = 0, rolling_credential = 0x1E1F \<rparr>,
               save_creds_state = \<lparr> negotiate_flags = 0x400701ff, session_key = 0x5A5A,
                               sequence_counter = 1, rolling_credential = 0x1E20 \<rparr>,
               auth = \<lparr> cred = 0x1E20, timestamp = 1 \<rparr>,
               return_auth = zero_Authenticator,
               capabilities = 0,
               client_caps = 0,
               query_level = 1 \<rparr>,
        Auth_Done)"
  unfolding dcerpc_bind_auth_schannel_def old_samba_key
  by (simp add: legacy_key_state_def continue_schannel_key_def auth_schannel_defs
        old_samba_peer_def sample_lib_def netlogon_idl_simps zero_Authenticator_def
        zero_CredentialState_def Let_def)

text \<open>
  C3, as the specification states it, fails. Against \<open>old_samba_peer\<close> the reply to the query of
  level 1 reports the capabilities 0 while 0x400701ff was negotiated, and the handshake
  ends in \<open>Auth_Done\<close>: the result \<open>NT_STATUS_NOT_IMPLEMENTED\<close> of a peer without AES is
  accepted before any comparison. A reply whose capabilities differ and whose return
  authenticator does not verify ends the handshake with the status of the verification,
  not with \<open>NT_STATUS_DOWNGRADE_DETECTED\<close>.
\<close>

theorem C3_level1_cross_check_counterexample:
  "dcerpc_bind_auth_schannel netlogon_idl sample_lib class_legacy lp_default SEC_CHAN_WKSTA
       True old_samba_peer
     = (Some \<lparr> auth_requested_negotiate_flags = 0x400701ff,
               table_is_netlogon = True,
               creds_state = \<lparr> negotiate_flags = 0x400701ff, session_key = 0x5A5A,
                               sequence_counter = 0, rolling_credential = 0x1E1F \<rparr>,
               cli_netlogon_creds = Some \<lparr> negotiate_flags = 0x400701ff, session_key = 0x5A5A,
                               sequence_counter = 0, rolling_credential = 0x1E1F \<rparr>,
               save_creds_state = \<lparr> negotiate_flags = 0x400701ff, session_key = 0x5A5A,
                               sequence_counter = 1, rolling_credential = 0x1E20 \<rparr>,
               auth = \<lparr> cred = 0x1E20, timestamp = 1 \<rparr>,
               return_auth = zero_Authenticator,
               capabilities = 0,
               client_caps = 0,
               query_level = 1 \<rparr>,
        Auth_Done)
   \<and> caps_value (capabilities_reply old_samba_peer 1) = 0
   \<and> continue_get_negotiated_capabilities netlogon_idl sample_lib
         (sample_auth_state 0x610fffff 0x610fffff)
         \<lparr> caps_status = NT_STATUS_OK, caps_result = NT_STATUS_OK, caps_value = 0x600fffff,
           caps_return_authenticator = \<lparr> cred = 0x99, timestamp = 0 \<rparr> \<rparr> False False
       = ((sample_auth_state 0x610fffff 0x610fffff)
            \<lparr>capabilities := 0x600fffff, return_auth := \<lparr> cred = 0x99, timestamp = 0 \<rparr>\<rparr>,
          Auth_Error NT_STATUS_ACCESS_DENIED)"
  using old_samba_run
  by (simp add: old_samba_peer_def sample_auth_state_def continue_get_negotiated_capabilities_def
        sample_lib_def netlogon_idl_simps Let_def)


text \<open>
  C3, amended. After the authenticated bind on the netlogon interface the query of level 1
  is sent. For every reply that arrives with \<open>NT_STATUS_OK\<close>, whose return authenticator
  verifies and whose result is \<open>NT_STATUS_OK\<close>, and in which the reported server
  capabilities differ from the negotiate flags of the verified credential state, the
  callback and with it the handshake end with \<open>NT_STATUS_DOWNGRADE_DETECTED\<close>.
\<close>

theorem C3_level1_cross_check:
  "(status = NT_STATUS_OK \<and> table_is_netlogon s
      \<and> netlogon_creds_client_authenticator L (creds_state s) = (NT_STATUS_OK, sv, a)
    \<longrightarrow> continue_bind_auth L s status False False
          = (s\<lparr>return_auth := zero_Authenticator, save_creds_state := sv, auth := a,
               query_level := 1\<rparr>,
             Send_LogonGetCapabilities 1 a))
   \<and> (caps_status rep = NT_STATUS_OK \<and> caps_result rep = NT_STATUS_OK
      \<and> netlogon_creds_client_verify L (save_creds_state s)
            (cred (caps_return_authenticator rep)) = (NT_STATUS_OK, sv')
      \<and> negotiate_flags sv' \<noteq> caps_value rep
    \<longrightarrow> snd (continue_get_negotiated_capabilities K L s rep control_nomem nomem)
          = Auth_Error NT_STATUS_DOWNGRADE_DETECTED)
   \<and> (bind_auth_status P = NT_STATUS_OK \<and> table_is_netlogon s
      \<and> netlogon_creds_client_authenticator L (creds_state s) = (NT_STATUS_OK, sv, a)
      \<and> \<not> talloc_fails P Alloc_caps_server_name
      \<and> \<not> talloc_fails P (Alloc_LogonGetCapabilities 1)
      \<and> caps_status (capabilities_reply P 1) = NT_STATUS_OK
      \<and> caps_result (capabilities_reply P 1) = NT_STATUS_OK
      \<and> netlogon_creds_client_verify L sv
            (cred (caps_return_authenticator (capabilities_reply P 1))) = (NT_STATUS_OK, sv')
      \<and> negotiate_flags sv' \<noteq> caps_value (capabilities_reply P 1)
    \<longrightarrow> snd (auth_schannel_verify K L P s) = Auth_Error NT_STATUS_DOWNGRADE_DETECTED)"
proof -
  have query: "status = NT_STATUS_OK \<and> table_is_netlogon s
      \<and> netlogon_creds_client_authenticator L (creds_state s) = (NT_STATUS_OK, sv, a)
    \<longrightarrow> continue_bind_auth L s status False False
          = (s\<lparr>return_auth := zero_Authenticator, save_creds_state := sv, auth := a,
               query_level := 1\<rparr>,
             Send_LogonGetCapabilities 1 a)" for status
    by (simp add: continue_bind_auth_def prepare_authenticator_def Let_def)
  have differ: "caps_status rep = NT_STATUS_OK \<and> caps_result rep = NT_STATUS_OK
      \<and> netlogon_creds_client_verify L (save_creds_state s)
            (cred (caps_return_authenticator rep)) = (NT_STATUS_OK, sv')
      \<and> negotiate_flags sv' \<noteq> caps_value rep
    \<longrightarrow> snd (continue_get_negotiated_capabilities K L s rep control_nomem nomem)
          = Auth_Error NT_STATUS_DOWNGRADE_DETECTED" for s rep control_nomem nomem
    by (simp add: continue_get_negotiated_capabilities_def Let_def)
  have pass: "logon_control_stage P (caps2_stage L P x) = x"
    if "snd x = Auth_Error e" for x e
    using that by (cases x) (simp add: caps2_stage_def logon_control_stage_def)
  have run: "bind_auth_status P = NT_STATUS_OK \<and> table_is_netlogon s
      \<and> netlogon_creds_client_authenticator L (creds_state s) = (NT_STATUS_OK, sv, a)
      \<and> \<not> talloc_fails P Alloc_caps_server_name
      \<and> \<not> talloc_fails P (Alloc_LogonGetCapabilities 1)
      \<and> caps_status (capabilities_reply P 1) = NT_STATUS_OK
      \<and> caps_result (capabilities_reply P 1) = NT_STATUS_OK
      \<and> netlogon_creds_client_verify L sv
            (cred (caps_return_authenticator (capabilities_reply P 1))) = (NT_STATUS_OK, sv')
      \<and> negotiate_flags sv' \<noteq> caps_value (capabilities_reply P 1)
    \<longrightarrow> snd (auth_schannel_verify K L P s) = Auth_Error NT_STATUS_DOWNGRADE_DETECTED"
  proof
    assume h: "bind_auth_status P = NT_STATUS_OK \<and> table_is_netlogon s
      \<and> netlogon_creds_client_authenticator L (creds_state s) = (NT_STATUS_OK, sv, a)
      \<and> \<not> talloc_fails P Alloc_caps_server_name
      \<and> \<not> talloc_fails P (Alloc_LogonGetCapabilities 1)
      \<and> caps_status (capabilities_reply P 1) = NT_STATUS_OK
      \<and> caps_result (capabilities_reply P 1) = NT_STATUS_OK
      \<and> netlogon_creds_client_verify L sv
            (cred (caps_return_authenticator (capabilities_reply P 1))) = (NT_STATUS_OK, sv')
      \<and> negotiate_flags sv' \<noteq> caps_value (capabilities_reply P 1)"
    let ?s1 = "s\<lparr>return_auth := zero_Authenticator, save_creds_state := sv, auth := a,
                  query_level := 1\<rparr>"
    let ?r = "continue_get_negotiated_capabilities K L ?s1 (capabilities_reply P 1)
                (talloc_fails P Alloc_LogonControl)
                (talloc_fails P (Alloc_LogonGetCapabilities 2))"
    from h query [of "bind_auth_status P"]
    have b: "continue_bind_auth L s (bind_auth_status P)
               (talloc_fails P Alloc_caps_server_name)
               (talloc_fails P (Alloc_LogonGetCapabilities 1))
             = (?s1, Send_LogonGetCapabilities 1 a)"
      by simp
    have c: "caps1_stage K L P (?s1, Send_LogonGetCapabilities 1 a) = ?r"
      by (simp add: caps1_stage_def)
    from h differ [of "capabilities_reply P 1" ?s1]
    have d: "snd ?r = Auth_Error NT_STATUS_DOWNGRADE_DETECTED"
      by simp
    show "snd (auth_schannel_verify K L P s) = Auth_Error NT_STATUS_DOWNGRADE_DETECTED"
      unfolding auth_schannel_verify_def b c pass [OF d] by (rule d)
  qed
  show ?thesis
    by (intro conjI query differ run)
qed

theorem C3_level1_cross_check_witness:
  "netlogon_creds_client_verify sample_lib
       (save_creds_state (sample_auth_state 0x610fffff 0x610fffff)) 0x12
     = (NT_STATUS_OK, \<lparr> negotiate_flags = 0x610fffff, session_key = 0x5A5A,
                        sequence_counter = 1, rolling_credential = 0x12 \<rparr>)
   \<and> snd (continue_get_negotiated_capabilities netlogon_idl sample_lib
            (sample_auth_state 0x610fffff 0x610fffff)
            \<lparr> caps_status = NT_STATUS_OK, caps_result = NT_STATUS_OK, caps_value = 0x600fffff,
              caps_return_authenticator = \<lparr> cred = 0x12, timestamp = 0 \<rparr> \<rparr> False False)
       = Auth_Error NT_STATUS_DOWNGRADE_DETECTED
   \<and> snd (auth_schannel_verify netlogon_idl sample_lib
            (unpatched_samba_peer\<lparr>capabilities_reply :=
               (\<lambda>lvl. \<lparr> caps_status = NT_STATUS_OK, caps_result = NT_STATUS_OK,
                         caps_value = 0x600fffff,
                         caps_return_authenticator = \<lparr> cred = 0x12, timestamp = 0 \<rparr> \<rparr>)\<rparr>)
            ((sample_auth_state 0x610fffff 0x610fffff)\<lparr>query_level := 0\<rparr>))
       = Auth_Error NT_STATUS_DOWNGRADE_DETECTED"
  using C3_level1_cross_check [of NT_STATUS_OK
          "(sample_auth_state 0x610fffff 0x610fffff)\<lparr>query_level := 0\<rparr>" sample_lib
          "\<lparr> negotiate_flags = 0x610fffff, session_key = 0x5A5A,
             sequence_counter = 1, rolling_credential = 0x11 \<rparr>"
          "\<lparr> cred = 0x11, timestamp = 1 \<rparr>"
          "\<lparr> caps_status = NT_STATUS_OK, caps_result = NT_STATUS_OK, caps_value = 0x600fffff,
             caps_return_authenticator = \<lparr> cred = 0x12, timestamp = 0 \<rparr> \<rparr>"
          "\<lparr> negotiate_flags = 0x610fffff, session_key = 0x5A5A,
             sequence_counter = 1, rolling_credential = 0x12 \<rparr>"
          netlogon_idl False False
          "unpatched_samba_peer\<lparr>capabilities_reply :=
               (\<lambda>lvl. \<lparr> caps_status = NT_STATUS_OK, caps_result = NT_STATUS_OK,
                         caps_value = 0x600fffff,
                         caps_return_authenticator = \<lparr> cred = 0x12, timestamp = 0 \<rparr> \<rparr>)\<rparr>"]
  by (simp add: sample_lib_def sample_auth_state_def unpatched_samba_peer_def
        continue_get_negotiated_capabilities_def netlogon_idl_simps Let_def)

text \<open>
  C4, as the specification states it, fails in both directions. A peer that negotiated strong
  keys and does not know the query of level 1 ends the handshake with
  \<open>NT_STATUS_DOWNGRADE_DETECTED\<close> although its LogonControl would return
  \<open>WERR_NOT_SUPPORTED\<close>: no probe is sent. Against \<open>old_samba_peer\<close>, whose query returns
  \<open>NT_STATUS_NOT_IMPLEMENTED\<close>, the handshake ends in \<open>Auth_Done\<close> although its LogonControl
  call would fail: again no probe is sent.
\<close>

theorem C4_legacy_fallback_counterexample:
  "snd (auth_schannel_verify netlogon_idl sample_lib nt4_peer
          ((sample_auth_state 0x600fffff 0x600fffff)\<lparr>query_level := 0\<rparr>))
     = Auth_Error NT_STATUS_DOWNGRADE_DETECTED
   \<and> caps_status (capabilities_reply nt4_peer 1) = NT_STATUS_RPC_PROCNUM_OUT_OF_RANGE
   \<and> logon_control_status nt4_peer = NT_STATUS_OK
   \<and> logon_control_werr nt4_peer = WERR_NOT_SUPPORTED
   \<and> snd (dcerpc_bind_auth_schannel netlogon_idl sample_lib class_legacy lp_default
             SEC_CHAN_WKSTA True old_samba_peer) = Auth_Done
   \<and> caps_result (capabilities_reply old_samba_peer 1) = NT_STATUS_NOT_IMPLEMENTED
   \<and> logon_control_status old_samba_peer = NT_STATUS_ACCESS_DENIED"
  using old_samba_run
  by (simp add: auth_schannel_defs nt4_peer_def old_samba_peer_def sample_auth_state_def
        sample_lib_def netlogon_idl_simps Let_def)

text \<open>
  C4, amended. When the query of level 1 fails with \<open>NT_STATUS_RPC_PROCNUM_OUT_OF_RANGE\<close>
  and the negotiated flags hold neither the AES nor the strong-keys bit, LogonControl is
  sent instead of failing, and the handshake then ends in \<open>Auth_Done\<close>, with the state
  untouched, exactly when that call succeeds and returns \<open>WERR_NOT_SUPPORTED\<close>; every other
  outcome of it is \<open>NT_STATUS_DOWNGRADE_DETECTED\<close>. With the AES or the strong-keys bit
  negotiated the failing query is \<open>NT_STATUS_DOWNGRADE_DETECTED\<close> at once. When the query
  returns the result \<open>NT_STATUS_NOT_IMPLEMENTED\<close> no LogonControl is sent: the handshake
  fails with \<open>NT_STATUS_DOWNGRADE_DETECTED\<close> if AES was negotiated and is done otherwise.
\<close>

theorem C4_legacy_fallback:
  "(caps_status rep = NT_STATUS_RPC_PROCNUM_OUT_OF_RANGE
      \<and> negotiate_flags (creds_state s) AND NETLOGON_NEG_SUPPORTS_AES K = 0
      \<and> negotiate_flags (creds_state s) AND NETLOGON_NEG_STRONG_KEYS K = 0
    \<longrightarrow> continue_get_negotiated_capabilities K L s rep control_nomem nomem
          = (if control_nomem then (s, Auth_Error NT_STATUS_NO_MEMORY)
             else (s, Send_LogonControl)))
   \<and> (caps_status rep = NT_STATUS_RPC_PROCNUM_OUT_OF_RANGE
      \<and> (negotiate_flags (creds_state s) AND NETLOGON_NEG_SUPPORTS_AES K \<noteq> 0
          \<or> negotiate_flags (creds_state s) AND NETLOGON_NEG_STRONG_KEYS K \<noteq> 0)
    \<longrightarrow> continue_get_negotiated_capabilities K L s rep control_nomem nomem
          = (s, Auth_Error NT_STATUS_DOWNGRADE_DETECTED))
   \<and> (caps_status rep = NT_STATUS_OK \<and> caps_result rep = NT_STATUS_NOT_IMPLEMENTED
    \<longrightarrow> snd (continue_get_negotiated_capabilities K L s rep control_nomem nomem)
          = (if negotiate_flags (creds_state s) AND NETLOGON_NEG_SUPPORTS_AES K \<noteq> 0
             then Auth_Error NT_STATUS_DOWNGRADE_DETECTED else Auth_Done)
        \<and> creds_state (fst (continue_get_negotiated_capabilities K L s rep control_nomem nomem))
          = creds_state s)
   \<and> continue_logon_control_done s status werr
       = (s, if status = NT_STATUS_OK \<and> werr = WERR_NOT_SUPPORTED
             then Auth_Done else Auth_Error NT_STATUS_DOWNGRADE_DETECTED)
   \<and> (caps_status (capabilities_reply P 1) = NT_STATUS_RPC_PROCNUM_OUT_OF_RANGE
      \<and> negotiate_flags (creds_state s) AND NETLOGON_NEG_SUPPORTS_AES K = 0
      \<and> negotiate_flags (creds_state s) AND NETLOGON_NEG_STRONG_KEYS K = 0
      \<and> \<not> talloc_fails P Alloc_LogonControl
    \<longrightarrow> logon_control_stage P
          (caps2_stage L P (caps1_stage K L P (s, Send_LogonGetCapabilities 1 a)))
        = (s, if logon_control_status P = NT_STATUS_OK
                 \<and> logon_control_werr P = WERR_NOT_SUPPORTED
              then Auth_Done else Auth_Error NT_STATUS_DOWNGRADE_DETECTED))"
proof -
  have probe: "caps_status rep = NT_STATUS_RPC_PROCNUM_OUT_OF_RANGE
      \<and> negotiate_flags (creds_state s) AND NETLOGON_NEG_SUPPORTS_AES K = 0
      \<and> negotiate_flags (creds_state s) AND NETLOGON_NEG_STRONG_KEYS K = 0
    \<longrightarrow> continue_get_negotiated_capabilities K L s rep control_nomem nomem
          = (if control_nomem then (s, Auth_Error NT_STATUS_NO_MEMORY)
             else (s, Send_LogonControl))" for rep control_nomem nomem
    by (simp add: continue_get_negotiated_capabilities_def continue_logon_control_do_def)
  have guard: "caps_status rep = NT_STATUS_RPC_PROCNUM_OUT_OF_RANGE
      \<and> (negotiate_flags (creds_state s) AND NETLOGON_NEG_SUPPORTS_AES K \<noteq> 0
          \<or> negotiate_flags (creds_state s) AND NETLOGON_NEG_STRONG_KEYS K \<noteq> 0)
    \<longrightarrow> continue_get_negotiated_capabilities K L s rep control_nomem nomem
          = (s, Auth_Error NT_STATUS_DOWNGRADE_DETECTED)"
    by (auto simp add: continue_get_negotiated_capabilities_def)
  have not_impl: "caps_status rep = NT_STATUS_OK \<and> caps_result rep = NT_STATUS_NOT_IMPLEMENTED
    \<longrightarrow> snd (continue_get_negotiated_capabilities K L s rep control_nomem nomem)
          = (if negotiate_flags (creds_state s) AND NETLOGON_NEG_SUPPORTS_AES K \<noteq> 0
             then Auth_Error NT_STATUS_DOWNGRADE_DETECTED else Auth_Done)
        \<and> creds_state (fst (continue_get_negotiated_capabilities K L s rep control_nomem nomem))
          = creds_state s"
    by (simp add: continue_get_negotiated_capabilities_def Let_def)
  have decided: "continue_logon_control_done s status werr
       = (s, if status = NT_STATUS_OK \<and> werr = WERR_NOT_SUPPORTED
             then Auth_Done else Auth_Error NT_STATUS_DOWNGRADE_DETECTED)" for status werr
    by (simp add: continue_logon_control_done_def)
  have run: "caps_status (capabilities_reply P 1) = NT_STATUS_RPC_PROCNUM_OUT_OF_RANGE
      \<and> negotiate_flags (creds_state s) AND NETLOGON_NEG_SUPPORTS_AES K = 0
      \<and> negotiate_flags (creds_state s) AND NETLOGON_NEG_STRONG_KEYS K = 0
      \<and> \<not> talloc_fails P Alloc_LogonControl
    \<longrightarrow> logon_control_stage P
          (caps2_stage L P (caps1_stage K L P (s, Send_LogonGetCapabilities 1 a)))
        = (s, if logon_control_status P = NT_STATUS_OK
                 \<and> logon_control_werr P = WERR_NOT_SUPPORTED
              then Auth_Done else Auth_Error NT_STATUS_DOWNGRADE_DETECTED)"
  proof
    assume h: "caps_status (capabilities_reply P 1) = NT_STATUS_RPC_PROCNUM_OUT_OF_RANGE
      \<and> negotiate_flags (creds_state s) AND NETLOGON_NEG_SUPPORTS_AES K = 0
      \<and> negotiate_flags (creds_state s) AND NETLOGON_NEG_STRONG_KEYS K = 0
      \<and> \<not> talloc_fails P Alloc_LogonControl"
    have c: "caps1_stage K L P (s, Send_LogonGetCapabilities 1 a)
        = continue_get_negotiated_capabilities K L s (capabilities_reply P 1)
            (talloc_fails P Alloc_LogonControl)
            (talloc_fails P (Alloc_LogonGetCapabilities 2))"
      by (simp add: caps1_stage_def)
    from h probe [of "capabilities_reply P 1" "talloc_fails P Alloc_LogonControl"
                    "talloc_fails P (Alloc_LogonGetCapabilities 2)"]
    have e: "continue_get_negotiated_capabilities K L s (capabilities_reply P 1)
            (talloc_fails P Alloc_LogonControl)
            (talloc_fails P (Alloc_LogonGetCapabilities 2)) = (s, Send_LogonControl)"
      by simp
    show "logon_control_stage P
          (caps2_stage L P (caps1_stage K L P (s, Send_LogonGetCapabilities 1 a)))
        = (s, if logon_control_status P = NT_STATUS_OK
                 \<and> logon_control_werr P = WERR_NOT_SUPPORTED
              then Auth_Done else Auth_Error NT_STATUS_DOWNGRADE_DETECTED)"
      unfolding c e by (simp add: caps2_stage_def logon_control_stage_def decided)
  qed
  show ?thesis
    by (intro conjI probe guard not_impl decided run)
qed

theorem C4_legacy_fallback_witness:
  "continue_get_negotiated_capabilities netlogon_idl sample_lib
       (sample_auth_state 0x610fffff 0x400701ff) (capabilities_reply nt4_peer 1) False False
     = (sample_auth_state 0x610fffff 0x400701ff, Send_LogonControl)
   \<and> logon_control_stage nt4_peer
        (caps2_stage sample_lib nt4_peer
           (caps1_stage netlogon_idl sample_lib nt4_peer
              (sample_auth_state 0x610fffff 0x400701ff,
               Send_LogonGetCapabilities 1 \<lparr> cred = 0x11, timestamp = 1 \<rparr>)))
     = (sample_auth_state 0x610fffff 0x400701ff, Auth_Done)
   \<and> continue_get_negotiated_capabilities netlogon_idl sample_lib
       (sample_auth_state 0x610fffff 0x610fffff) (capabilities_reply nt4_peer 1) False False
     = (sample_auth_state 0x610fffff 0x610fffff, Auth_Error NT_STATUS_DOWNGRADE_DETECTED)
   \<and> snd (continue_get_negotiated_capabilities netlogon_idl sample_lib
           (sample_auth_state 0x610fffff 0x400701ff) (capabilities_reply old_samba_peer 1)
           False False)
     = Auth_Done"
  using C4_legacy_fallback [of "capabilities_reply nt4_peer 1"
          "sample_auth_state 0x610fffff 0x400701ff" netlogon_idl sample_lib False False
          NT_STATUS_OK WERR_NOT_SUPPORTED nt4_peer "\<lparr> cred = 0x11, timestamp = 1 \<rparr>"]
        C4_legacy_fallback [of "capabilities_reply nt4_peer 1"
          "sample_auth_state 0x610fffff 0x610fffff" netlogon_idl sample_lib False False
          NT_STATUS_OK WERR_NOT_SUPPORTED nt4_peer "\<lparr> cred = 0x11, timestamp = 1 \<rparr>"]
        C4_legacy_fallback [of "capabilities_reply old_samba_peer 1"
          "sample_auth_state 0x610fffff 0x400701ff" netlogon_idl sample_lib False False
          NT_STATUS_OK WERR_NOT_SUPPORTED nt4_peer "\<lparr> cred = 0x11, timestamp = 1 \<rparr>"]
  by (simp add: nt4_peer_def old_samba_peer_def sample_auth_state_def netlogon_idl_simps)

text \<open>The requested flags stay what \<open>dcerpc_schannel_key_send\<close> computed through the
  whole key handshake.\<close>

lemma schannel_key_attempt_requested:
  "schannel_key_attempt K L P n s = (s', r) \<Longrightarrow>
     requested_negotiate_flags s' = requested_negotiate_flags s"
  by (auto simp: schannel_key_attempt_def continue_srv_challenge_def srv_auth2_defs Let_def
           split: prod.splits sum.splits srv_auth2_next.splits if_splits option.splits)

lemma schannel_key_attempts_requested:
  "requested_negotiate_flags (fst (schannel_key_attempts K L P n s sent))
     = requested_negotiate_flags s"
proof (induction K L P n s sent rule: schannel_key_attempts.induct)
  case (1 K L P n s sent)
  show ?case
  proof (cases "schannel_key_attempt K L P n s")
    case (Pair s' r)
    then show ?thesis
      using "1.IH" [of s'] schannel_key_attempt_requested [OF Pair]
      by (subst schannel_key_attempts.simps) (auto split: sum.splits)
  qed
qed

lemma dcerpc_schannel_key_requested:
  "requested_negotiate_flags (fst (dcerpc_schannel_key K L fl lp t P))
     = requested_negotiate_flags (dcerpc_schannel_key_send K fl lp t)"
  by (auto simp: dcerpc_schannel_key_def continue_bind_auth_none_def Let_def
                 schannel_key_attempts_requested
           split: sum.splits prod.splits if_splits)

lemma unpatched_samba_key:
  "dcerpc_schannel_key netlogon_idl sample_lib class_auto lp_default SEC_CHAN_WKSTA
       unpatched_samba_peer
     = (auto_key_state
          \<lparr>creds := Some \<lparr> negotiate_flags = 0x610fffff, session_key = 0x5A5A,
                           sequence_counter = 0, rolling_credential = 0x1E1F \<rparr>,
           remote_negotiate_flags := 0x610fffff, credentials2 := 0x0F0F,
           credentials3 := 0x1E1F\<rparr>,
        NT_STATUS_OK, [0x1111])"
proof -
  have a: "dcerpc_schannel_key_send netlogon_idl class_auto lp_default SEC_CHAN_WKSTA
             = auto_key_state\<lparr>credentials1 := 0\<rparr>"
    by (simp add: key_send_defs netlogon_idl_simps class_auto_def lp_default_def
          auto_key_state_def Let_def)
  have b: "dcerpc_schannel_key netlogon_idl sample_lib class_auto lp_default SEC_CHAN_WKSTA
               unpatched_samba_peer
             = schannel_key_attempts netlogon_idl sample_lib unpatched_samba_peer 0
                 auto_key_state [0x1111]"
    unfolding dcerpc_schannel_key_def a
    by (simp add: continue_epm_map_binding_def continue_secondary_connection_def
          continue_bind_auth_none_def unpatched_samba_peer_def auto_key_state_def Let_def)
  have c: "schannel_key_attempt netlogon_idl sample_lib unpatched_samba_peer 0 auto_key_state
      = (auto_key_state
           \<lparr>creds := Some \<lparr> negotiate_flags = 0x610fffff, session_key = 0x5A5A,
                            sequence_counter = 0, rolling_credential = 0x1E1F \<rparr>,
            remote_negotiate_flags := 0x610fffff, credentials2 := 0x0F0F,
            credentials3 := 0x1E1F\<rparr>,
         Inl NT_STATUS_OK)"
    by (simp add: schannel_key_attempt_def continue_srv_challenge_def srv_auth2_defs
          unpatched_samba_peer_def sample_lib_def auto_key_state_def netlogon_idl_simps Let_def)
  show ?thesis
    unfolding b by (subst schannel_key_attempts.simps) (simp add: c)
qed

lemma unpatched_samba_run:
  "dcerpc_bind_auth_schannel netlogon_idl sample_lib class_auto lp_default SEC_CHAN_WKSTA
       True unpatched_samba_peer
     = (Some \<lparr> auth_requested_negotiate_flags = 0x610fffff,
               table_is_netlogon = True,
               creds_state = \<lparr> negotiate_flags = 0x610fffff, session_key = 0x5A5A,
                               sequence_counter = 1, rolling_credential = 0x1E21 \<rparr>,
               cli_netlogon_creds = Some \<lparr> negotiate_flags = 0x610fffff, session_key = 0x5A5A,
                               sequence_counter = 1, rolling_credential = 0x1E21 \<rparr>,
               save_creds_state = \<lparr> negotiate_flags = 0x610fffff, session_key = 0x5A5A,
                               sequence_counter = 2, rolling_credential = 0x1E22 \<rparr>,
               auth = \<lparr> cred = 0x1E22, timestamp = 2 \<rparr>,
               return_auth = zero_Authenticator,
               capabilities = 0x610fffff,
               client_caps = 0,
               query_level = 2 \<rparr>,
        Auth_Done)"
  unfolding dcerpc_bind_auth_schannel_def unpatched_samba_key
  by (simp add: auto_key_state_def continue_schannel_key_def auth_schannel_defs
        unpatched_samba_peer_def sample_lib_def netlogon_idl_simps zero_Authenticator_def
        zero_CredentialState_def Let_def)

text \<open>
  C5, as the specification states it, fails. Against \<open>unpatched_samba_peer\<close> the handshake ends in
  \<open>Auth_Done\<close> although the query of level 2 echoed nothing: it failed with
  \<open>NT_STATUS_RPC_BAD_STUB_DATA\<close> and LogonControl decided. A reply whose echo differs from
  the requested flags and whose return authenticator does not verify ends the handshake
  with the status of the verification, not with \<open>NT_STATUS_DOWNGRADE_DETECTED\<close>.
\<close>

theorem C5_level2_echo_counterexample:
  "dcerpc_bind_auth_schannel netlogon_idl sample_lib class_auto lp_default SEC_CHAN_WKSTA
       True unpatched_samba_peer
     = (Some \<lparr> auth_requested_negotiate_flags = 0x610fffff,
               table_is_netlogon = True,
               creds_state = \<lparr> negotiate_flags = 0x610fffff, session_key = 0x5A5A,
                               sequence_counter = 1, rolling_credential = 0x1E21 \<rparr>,
               cli_netlogon_creds = Some \<lparr> negotiate_flags = 0x610fffff, session_key = 0x5A5A,
                               sequence_counter = 1, rolling_credential = 0x1E21 \<rparr>,
               save_creds_state = \<lparr> negotiate_flags = 0x610fffff, session_key = 0x5A5A,
                               sequence_counter = 2, rolling_credential = 0x1E22 \<rparr>,
               auth = \<lparr> cred = 0x1E22, timestamp = 2 \<rparr>,
               return_auth = zero_Authenticator,
               capabilities = 0x610fffff,
               client_caps = 0,
               query_level = 2 \<rparr>,
        Auth_Done)
   \<and> caps_status (capabilities_reply unpatched_samba_peer 2) = NT_STATUS_RPC_BAD_STUB_DATA
   \<and> continue_get_client_capabilities sample_lib (sample_auth_state 0x610fffff 0x610fffff)
         \<lparr> caps_status = NT_STATUS_OK, caps_result = NT_STATUS_OK, caps_value = 0x600fffff,
           caps_return_authenticator = \<lparr> cred = 0x99, timestamp = 0 \<rparr> \<rparr> False
       = ((sample_auth_state 0x610fffff 0x610fffff)
            \<lparr>client_caps := 0x600fffff, return_auth := \<lparr> cred = 0x99, timestamp = 0 \<rparr>\<rparr>,
          Auth_Error NT_STATUS_ACCESS_DENIED)"
  using unpatched_samba_run
  by (simp add: unpatched_samba_peer_def sample_auth_state_def
        continue_get_client_capabilities_def sample_lib_def Let_def)

text \<open>
  C5, amended. The callback of the query of level 2 ends the handshake in \<open>Auth_Done\<close> only
  if the reply arrived with \<open>NT_STATUS_OK\<close>, its return authenticator verified, its
  result is \<open>NT_STATUS_OK\<close> and the echoed flags are the requested ones. For every reply
  that arrives with \<open>NT_STATUS_OK\<close>, verifies and has the result \<open>NT_STATUS_OK\<close>, the
  handshake is done when the echo equals the requested flags and fails with
  \<open>NT_STATUS_DOWNGRADE_DETECTED\<close> when it differs. The requested flags of auth_schannel
  are the ones every ServerAuthenticate2 of the key handshake sent.
\<close>

theorem C5_level2_echo:
  "(continue_get_client_capabilities L s rep nomem = (s', Auth_Done)
    \<longrightarrow> caps_status rep = NT_STATUS_OK
        \<and> fst (netlogon_creds_client_verify L (save_creds_state s)
                  (cred (caps_return_authenticator rep))) = NT_STATUS_OK
        \<and> caps_result rep = NT_STATUS_OK
        \<and> caps_value rep = auth_requested_negotiate_flags s)
   \<and> (caps_status rep = NT_STATUS_OK
      \<and> netlogon_creds_client_verify L (save_creds_state s)
            (cred (caps_return_authenticator rep)) = (NT_STATUS_OK, sv)
      \<and> caps_result rep = NT_STATUS_OK
    \<longrightarrow> snd (continue_get_client_capabilities L s rep nomem)
          = (if caps_value rep = auth_requested_negotiate_flags s
             then Auth_Done else Auth_Error NT_STATUS_DOWNGRADE_DETECTED))
   \<and> (caps_status (capabilities_reply P 2) = NT_STATUS_OK
      \<and> netlogon_creds_client_verify L (save_creds_state s)
            (cred (caps_return_authenticator (capabilities_reply P 2))) = (NT_STATUS_OK, sv)
      \<and> caps_result (capabilities_reply P 2) = NT_STATUS_OK
      \<and> caps_value (capabilities_reply P 2) \<noteq> auth_requested_negotiate_flags s
    \<longrightarrow> snd (logon_control_stage P (caps2_stage L P (s, Send_LogonGetCapabilities 2 a)))
          = Auth_Error NT_STATUS_DOWNGRADE_DETECTED)
   \<and> (snd (continue_srv_challenge L ks crep pwd nomem) = Inr (f, c)
    \<longrightarrow> f = requested_negotiate_flags ks)
   \<and> requested_negotiate_flags (fst (dcerpc_schannel_key K L fl lp t P))
       = requested_negotiate_flags (dcerpc_schannel_key_send K fl lp t)
   \<and> (continue_schannel_key is_netlogon status (Some cs) requested nomem = Inr s0
    \<longrightarrow> auth_requested_negotiate_flags s0 = requested)
   \<and> auth_requested_negotiate_flags (fst (continue_bind_auth L s status name_nomem nomem))
       = auth_requested_negotiate_flags s
   \<and> auth_requested_negotiate_flags
         (fst (continue_get_negotiated_capabilities K L s rep control_nomem nomem))
       = auth_requested_negotiate_flags s"
proof -
  have only_if: "continue_get_client_capabilities L s rep nomem = (s', Auth_Done)
    \<longrightarrow> caps_status rep = NT_STATUS_OK
        \<and> fst (netlogon_creds_client_verify L (save_creds_state s)
                  (cred (caps_return_authenticator rep))) = NT_STATUS_OK
        \<and> caps_result rep = NT_STATUS_OK
        \<and> caps_value rep = auth_requested_negotiate_flags s"
    by (auto simp: continue_get_client_capabilities_def continue_logon_control_do_def Let_def
             split: if_splits prod.splits)
  have echo: "caps_status rep = NT_STATUS_OK
      \<and> netlogon_creds_client_verify L (save_creds_state s)
            (cred (caps_return_authenticator rep)) = (NT_STATUS_OK, sv)
      \<and> caps_result rep = NT_STATUS_OK
    \<longrightarrow> snd (continue_get_client_capabilities L s rep nomem)
          = (if caps_value rep = auth_requested_negotiate_flags s
             then Auth_Done else Auth_Error NT_STATUS_DOWNGRADE_DETECTED)" for rep nomem
    by (auto simp: continue_get_client_capabilities_def Let_def)
  have run: "caps_status (capabilities_reply P 2) = NT_STATUS_OK
      \<and> netlogon_creds_client_verify L (save_creds_state s)
            (cred (caps_return_authenticator (capabilities_reply P 2))) = (NT_STATUS_OK, sv)
      \<and> caps_result (capabilities_reply P 2) = NT_STATUS_OK
      \<and> caps_value (capabilities_reply P 2) \<noteq> auth_requested_negotiate_flags s
    \<longrightarrow> snd (logon_control_stage P (caps2_stage L P (s, Send_LogonGetCapabilities 2 a)))
          = Auth_Error NT_STATUS_DOWNGRADE_DETECTED"
  proof
    assume h: "caps_status (capabilities_reply P 2) = NT_STATUS_OK
      \<and> netlogon_creds_client_verify L (save_creds_state s)
            (cred (caps_return_authenticator (capabilities_reply P 2))) = (NT_STATUS_OK, sv)
      \<and> caps_result (capabilities_reply P 2) = NT_STATUS_OK
      \<and> caps_value (capabilities_reply P 2) \<noteq> auth_requested_negotiate_flags s"
    let ?r = "continue_get_client_capabilities L s (capabilities_reply P 2)
                (talloc_fails P Alloc_LogonControl)"
    have c: "caps2_stage L P (s, Send_LogonGetCapabilities 2 a) = ?r"
      by (simp add: caps2_stage_def)
    from h echo [of "capabilities_reply P 2" "talloc_fails P Alloc_LogonControl"]
    have d: "snd ?r = Auth_Error NT_STATUS_DOWNGRADE_DETECTED"
      by simp
    then have "logon_control_stage P ?r = ?r"
      by (cases ?r) (simp add: logon_control_stage_def)
    with d show "snd (logon_control_stage P (caps2_stage L P (s, Send_LogonGetCapabilities 2 a)))
          = Auth_Error NT_STATUS_DOWNGRADE_DETECTED"
      unfolding c by simp
  qed
  have sent: "snd (continue_srv_challenge L ks crep pwd nomem) = Inr (f, c)
    \<longrightarrow> f = requested_negotiate_flags ks"
    by (auto simp: continue_srv_challenge_def Let_def split: if_splits option.splits)
  have handed: "continue_schannel_key is_netlogon status (Some cs) requested nomem = Inr s0
    \<longrightarrow> auth_requested_negotiate_flags s0 = requested"
    by (auto simp: continue_schannel_key_def split: if_splits)
  have bind: "auth_requested_negotiate_flags (fst (continue_bind_auth L s status name_nomem nomem))
       = auth_requested_negotiate_flags s"
    by (auto simp: continue_bind_auth_def prepare_authenticator_def Let_def split: prod.splits)
  have l1: "auth_requested_negotiate_flags
         (fst (continue_get_negotiated_capabilities K L s rep control_nomem nomem))
       = auth_requested_negotiate_flags s"
    by (auto simp: continue_get_negotiated_capabilities_def prepare_authenticator_def
                   continue_logon_control_do_def Let_def split: prod.splits)
  show ?thesis
    by (intro conjI only_if echo run sent dcerpc_schannel_key_requested handed bind l1)
qed

theorem C5_level2_echo_witness:
  "continue_get_client_capabilities sample_lib (sample_auth_state 0x610fffff 0x610fffff)
       \<lparr> caps_status = NT_STATUS_OK, caps_result = NT_STATUS_OK, caps_value = 0x610fffff,
         caps_return_authenticator = \<lparr> cred = 0x12, timestamp = 0 \<rparr> \<rparr> False
     = ((sample_auth_state 0x610fffff 0x610fffff)
          \<lparr>client_caps := 0x610fffff, return_auth := \<lparr> cred = 0x12, timestamp = 0 \<rparr>,
           save_creds_state := \<lparr> negotiate_flags = 0x610fffff, session_key = 0x5A5A,
                                  sequence_counter = 1, rolling_credential = 0x12 \<rparr>,
           creds_state := \<lparr> negotiate_flags = 0x610fffff, session_key = 0x5A5A,
                             sequence_counter = 1, rolling_credential = 0x12 \<rparr>,
           cli_netlogon_creds := Some \<lparr> negotiate_flags = 0x610fffff, session_key = 0x5A5A,
                             sequence_counter = 1, rolling_credential = 0x12 \<rparr>\<rparr>,
        Auth_Done)
   \<and> snd (continue_get_client_capabilities sample_lib (sample_auth_state 0x610fffff 0x610fffff)
       \<lparr> caps_status = NT_STATUS_OK, caps_result = NT_STATUS_OK, caps_value = 0x600fffff,
         caps_return_authenticator = \<lparr> cred = 0x12, timestamp = 0 \<rparr> \<rparr> False)
     = Auth_Error NT_STATUS_DOWNGRADE_DETECTED
   \<and> snd (continue_srv_challenge sample_lib auto_key_state (challenge_reply nt4_peer 0)
            (Some 0x5A5A) False) = Inr (0x610fffff, 0x1E1E)"
  using C5_level2_echo [of sample_lib "sample_auth_state 0x610fffff 0x610fffff"
          "\<lparr> caps_status = NT_STATUS_OK, caps_result = NT_STATUS_OK, caps_value = 0x610fffff,
             caps_return_authenticator = \<lparr> cred = 0x12, timestamp = 0 \<rparr> \<rparr>" False]
        C5_level2_echo [of sample_lib "sample_auth_state 0x610fffff 0x610fffff"
          "\<lparr> caps_status = NT_STATUS_OK, caps_result = NT_STATUS_OK, caps_value = 0x600fffff,
             caps_return_authenticator = \<lparr> cred = 0x12, timestamp = 0 \<rparr> \<rparr>" False _
          "\<lparr> negotiate_flags = 0x610fffff, session_key = 0x5A5A,
                                  sequence_counter = 1, rolling_credential = 0x12 \<rparr>"
          "unpatched_samba_peer\<lparr>capabilities_reply :=
               (\<lambda>lvl. \<lparr> caps_status = NT_STATUS_OK, caps_result = NT_STATUS_OK,
                         caps_value = 0x600fffff,
                         caps_return_authenticator = \<lparr> cred = 0x12, timestamp = 0 \<rparr> \<rparr>)\<rparr>"
          "\<lparr> cred = 0x11, timestamp = 1 \<rparr>" auto_key_state "challenge_reply nt4_peer 0"
          "Some 0x5A5A" "0x610fffff" "0x1E1E"]
  by (simp add: sample_lib_def sample_auth_state_def continue_get_client_capabilities_def
        continue_srv_challenge_def auto_key_state_def nt4_peer_def Let_def)

end
